theory Spec2Isabelle
  imports Complex_Main "HOL-Library.Word" "HOL-Library.Log_Nat"
begin

section \<open>Scalars, device tags and errors\<close>

text \<open>
  The C++ sources are templates over a floating-point precision \<open>T\<close> (\<open>fp_t\<close> in the
  gate cache) and its complex counterpart \<open>CFP_t\<close>. The embedding idealises both as the
  real and complex numbers: rounding and the infinities are outside the model. NaN is
  outside it too, except in the keys of the gate cache, where the comparison of a NaN
  with itself decides what a lookup finds.
  \<open>size_t\<close> counters of the sweep are 64-bit words, so that \<open>0 - 1\<close> wraps as it does
  in the code. Wire labels are \<open>size_t\<close> values on which the code only tests equality
  and sorts; they are natural numbers here.
\<close>

type_synonym size_t = "64 word"
type_synonym fp_t = real
type_synonym CFP_t = complex

record DevTag =
  device_id :: int
  stream_id :: int

text \<open>
  The exceptions of the code. \<open>PL_ABORT\<close>, \<open>PL_ABORT_IF\<close>, \<open>PL_ABORT_IF_NOT\<close> and
  \<open>PL_ASSERT\<close> throw the library's exception with a message;
  \<open>std::unordered_map::at\<close> and \<open>std::vector::at\<close> throw \<open>std::out_of_range\<close>.
  A write through \<open>operator[]\<close> beyond the end of a \<open>std::vector\<close> and a conversion of a
  \<open>double\<close> that \<open>size_t\<close> cannot hold have no defined behaviour in C++; the model makes
  them the outcome \<open>Undefined_behaviour\<close> instead of inventing a result. \<open>Blocked\<close>
  is not an exception: it stands for a thread that waits for a device and never gets
  one.
\<close>

datatype error =
    LightningException string
  | Std_out_of_range
  | Undefined_behaviour
  | Blocked

section \<open>The gate cache (\<open>GateCache\<close>)\<close>

text \<open>
  Modelled from the spec: the device-resident matrix handle of the gate-value cache.
  \<open>DataBuffer.hpp\<close> is not among the sources; a buffer is modelled by its length, its
  device tag and the values that were copied to it.
\<close>

record DataBuffer =
  buf_length :: nat
  buf_dev_tag :: DevTag
  buf_data :: "CFP_t list"

definition DataBuffer_new :: "nat \<Rightarrow> DevTag \<Rightarrow> DataBuffer" where
  "DataBuffer_new n tag = \<lparr>buf_length = n, buf_dev_tag = tag, buf_data = replicate n 0\<rparr>"

definition CopyHostDataToGpu :: "CFP_t list \<Rightarrow> nat \<Rightarrow> DataBuffer \<Rightarrow> DataBuffer" where
  "CopyHostDataToGpu host_in n b = b\<lparr>buf_data := take n host_in @ drop n (buf_data b)\<rparr>"

text \<open>
  A gate is cached under the pair of its name and its parameter value, a floating-point
  number. The maps compare keys with \<open>==\<close> of \<open>std::pair\<close>, that is with \<open>==\<close> on
  the name and \<open>==\<close> on the parameter, and a NaN is not equal to anything, itself
  included. The parameter of a key is therefore a number or NaN.
\<close>

datatype key_param = Num real | NaN

fun fp_equal :: "key_param \<Rightarrow> key_param \<Rightarrow> bool" where
  "fp_equal (Num a) (Num b) = (a = b)"
| "fp_equal _ _ = False"

type_synonym gate_id = "string \<times> key_param"

definition gate_id_equal :: "gate_id \<Rightarrow> gate_id \<Rightarrow> bool" where
  "gate_id_equal k k' = (fst k = fst k' \<and> fp_equal (snd k) (snd k'))"

text \<open>
  A \<open>std::unordered_map\<close> with these keys is the list of its entries. \<open>map_find\<close> is
  \<open>find\<close>: the entry whose key compares equal to the given key, if there is one.
  \<open>map_subscript\<close> reads \<open>m[k]\<close>: \<open>operator[]\<close> returns the value of that entry and
  inserts an entry with a default-constructed value when no key compares equal.
  \<open>map_modify\<close> is a change made through the reference that \<open>m[k]\<close> returns, as in
  \<open>m[k] = v\<close> and \<open>m[k].CopyHostDataToGpu(...)\<close>. Entries whose keys hold NaN are never
  found again, so the list may hold several of them.
\<close>

type_synonym 'v gate_map = "(gate_id \<times> 'v) list"

fun map_find :: "gate_id \<Rightarrow> 'v gate_map \<Rightarrow> 'v option" where
  "map_find k [] = None"
| "map_find k ((k', v) # m) = (if gate_id_equal k' k then Some v else map_find k m)"

definition map_subscript :: "'v \<Rightarrow> gate_id \<Rightarrow> 'v gate_map \<Rightarrow> 'v \<times> 'v gate_map" where
  "map_subscript dflt k m =
     (case map_find k m of
        Some v \<Rightarrow> (v, m)
      | None \<Rightarrow> (dflt, m @ [(k, dflt)]))"

fun map_modify :: "'v \<Rightarrow> ('v \<Rightarrow> 'v) \<Rightarrow> gate_id \<Rightarrow> 'v gate_map \<Rightarrow> 'v gate_map" where
  "map_modify dflt f k [] = [(k, f dflt)]"
| "map_modify dflt f k ((k', v) # m) =
     (if gate_id_equal k' k then (k', f v) # m else (k', v) # map_modify dflt f k m)"

text \<open>A default-constructed buffer, as \<open>operator[]\<close> of the device-side map inserts it.\<close>

definition DataBuffer_default :: DataBuffer where
  "DataBuffer_default = DataBuffer_new 0 \<lparr>device_id = 0, stream_id = 0\<rparr>"

record GateCache =
  total_alloc_bytes :: size_t
  device_tag :: DevTag
  device_gates :: "DataBuffer gate_map"
  host_gates :: "CFP_t list gate_map"

text \<open>\<open>sizeof(CFP_t)\<close> for double precision (two 8-byte reals).\<close>

definition sizeof_CFP_t :: size_t where
  "sizeof_CFP_t = 16"

definition gateExists :: "string \<Rightarrow> key_param \<Rightarrow> GateCache \<Rightarrow> bool" where
  "gateExists gate_name gate_param c =
     (map_find (gate_name, gate_param) (host_gates c) \<noteq> None \<and>
      map_find (gate_name, gate_param) (device_gates c) \<noteq> None)"

text \<open>
  \<open>add_gate\<close>, statement by statement: the host data is stored under the key, read back
  through \<open>host_gates_[gate_key]\<close> as \<open>gate\<close>, a buffer of the size of \<open>gate\<close> is stored
  under the key in the device-side map, the values of \<open>gate\<close> are copied into
  \<open>device_gates_[gate_key]\<close>, and the byte count grows by the size of \<open>gate\<close>.
\<close>

definition add_gate :: "string \<Rightarrow> key_param \<Rightarrow> CFP_t list \<Rightarrow> GateCache \<Rightarrow> GateCache" where
  "add_gate gate_name gate_param host_in c =
     (let gate_key = (gate_name, gate_param);
          host1 = map_modify [] (\<lambda>_. host_in) gate_key (host_gates c);
          (gate, host2) = map_subscript [] gate_key host1;
          dev1 = map_modify DataBuffer_default
                   (\<lambda>_. DataBuffer_new (length gate) (device_tag c)) gate_key (device_gates c);
          dev2 = map_modify DataBuffer_default
                   (CopyHostDataToGpu gate (length gate)) gate_key dev1
      in c\<lparr>host_gates := host2, device_gates := dev2,
           total_alloc_bytes := total_alloc_bytes c + sizeof_CFP_t * of_nat (length gate)\<rparr>)"

definition get_gate_host :: "string \<Rightarrow> key_param \<Rightarrow> GateCache \<Rightarrow> CFP_t list \<times> GateCache" where
  "get_gate_host gate_name gate_param c =
     (case map_subscript [] (gate_name, gate_param) (host_gates c) of
        (v, host') \<Rightarrow> (v, c\<lparr>host_gates := host'\<rparr>))"

text \<open>A cache built with \<open>populate = false\<close>.\<close>

definition GateCache_new :: "int \<Rightarrow> int \<Rightarrow> GateCache" where
  "GateCache_new dev stream =
     \<lparr>total_alloc_bytes = 0, device_tag = \<lparr>device_id = dev, stream_id = stream\<rparr>,
      device_gates = [], host_gates = []\<rparr>"

section \<open>The observable model\<close>

text \<open>
  The four subclasses of \<open>ObservableGPU\<close> as one datatype. A tensor product stores its
  members (\<open>obs_\<close>) and the wires computed by its constructor (\<open>all_wires_\<close>); a
  Hamiltonian stores \<open>coeffs_\<close> and \<open>obs_\<close>.
\<close>

datatype ObservableGPU =
    NamedObs string "nat list" "fp_t list"
  | HermitianObs "CFP_t list" "nat list"
  | TensorProdObs "ObservableGPU list" "nat list"
  | HamiltonianObs "fp_t list" "ObservableGPU list"

datatype obs_class = NamedObsGPU | HermitianObsGPU | TensorProdObsGPU | HamiltonianGPU

fun typeid :: "ObservableGPU \<Rightarrow> obs_class" where
  "typeid (NamedObs _ _ _) = NamedObsGPU"
| "typeid (HermitianObs _ _) = HermitianObsGPU"
| "typeid (TensorProdObs _ _) = TensorProdObsGPU"
| "typeid (HamiltonianObs _ _) = HamiltonianGPU"

text \<open>
  \<open>getWires\<close>. The Hamiltonian collects the wires of its terms in a
  \<open>std::unordered_set\<close>, copies the set into a vector and sorts it.
\<close>

fun getWires :: "ObservableGPU \<Rightarrow> nat list" where
  "getWires (NamedObs _ wires _) = wires"
| "getWires (HermitianObs _ wires) = wires"
| "getWires (TensorProdObs _ all_wires) = all_wires"
| "getWires (HamiltonianObs _ obs) =
     sorted_list_of_set (\<Union>ob \<in> set obs. set (getWires ob))"

text \<open>
  The constructor of \<open>TensorProdObsGPU\<close>. \<open>insert_wires\<close> is the inner loop over the
  wires of one member, \<open>collect_wires\<close> the outer loop over the members; the
  \<open>std::unordered_set\<close> is a set, and copying it into a vector and sorting gives
  \<open>sorted_list_of_set\<close> whatever the iteration order of the set.
\<close>

fun insert_wires :: "nat list \<Rightarrow> nat set \<Rightarrow> error + nat set" where
  "insert_wires [] wires = Inr wires"
| "insert_wires (wire # ob_wires) wires =
     (if wire \<in> wires
      then Inl (LightningException ''All wires in observables must be disjoint.'')
      else insert_wires ob_wires (insert wire wires))"

fun collect_wires :: "ObservableGPU list \<Rightarrow> nat set \<Rightarrow> error + nat set" where
  "collect_wires [] wires = Inr wires"
| "collect_wires (ob # obs) wires =
     (case insert_wires (getWires ob) wires of
        Inl e \<Rightarrow> Inl e
      | Inr wires' \<Rightarrow> collect_wires obs wires')"

definition TensorProdObsGPU_create :: "ObservableGPU list \<Rightarrow> error + ObservableGPU" where
  "TensorProdObsGPU_create obs =
     (case collect_wires obs {} of
        Inl e \<Rightarrow> Inl e
      | Inr wires \<Rightarrow> Inr (TensorProdObs obs (sorted_list_of_set wires)))"

text \<open>The constructor of \<open>HamiltonianGPU\<close> with its \<open>PL_ASSERT\<close>.\<close>

definition HamiltonianGPU_create :: "fp_t list \<Rightarrow> ObservableGPU list \<Rightarrow> error + ObservableGPU" where
  "HamiltonianGPU_create coeffs obs =
     (if length coeffs = length obs then Inr (HamiltonianObs coeffs obs)
      else Inl (LightningException ''Assertion failed: coeffs_.size() == obs_.size()''))"

text \<open>
  \<open>operator==\<close> compares the dynamic types and then calls the virtual \<open>isEqual\<close> of the
  left operand, which casts the right operand to its own class. \<open>isEqual\<close> is only
  reached with operands of one class; its last equation is never used by \<open>operator_eq\<close>.
  \<open>isEqual_loop\<close> is the element loop of the tensor product and of the Hamiltonian: it
  runs over the members of the left operand. Where the right operand is shorter the
  C++ reads beyond its vector; the Hamiltonian, which does not compare the lengths
  first, is protected from this by its constructor's assertion together with the
  comparison of the coefficient vectors. The loop answers \<open>False\<close> there.
\<close>

fun operator_eq :: "ObservableGPU \<Rightarrow> ObservableGPU \<Rightarrow> bool"
  and isEqual :: "ObservableGPU \<Rightarrow> ObservableGPU \<Rightarrow> bool"
  and isEqual_loop :: "ObservableGPU list \<Rightarrow> ObservableGPU list \<Rightarrow> bool" where
  "operator_eq a b = (typeid a = typeid b \<and> isEqual a b)"
| "isEqual (NamedObs obs_name wires params) (NamedObs obs_name' wires' params') =
     (obs_name = obs_name' \<and> wires = wires' \<and> params = params')"
| "isEqual (HermitianObs matrix wires) (HermitianObs matrix' wires') =
     (matrix = matrix' \<and> wires = wires')"
| "isEqual (TensorProdObs obs _) (TensorProdObs obs' _) =
     (if length obs \<noteq> length obs' then False else isEqual_loop obs obs')"
| "isEqual (HamiltonianObs coeffs obs) (HamiltonianObs coeffs' obs') =
     (if coeffs \<noteq> coeffs' then False else isEqual_loop obs obs')"
| "isEqual _ _ = False"
| "isEqual_loop [] _ = True"
| "isEqual_loop (a # as) [] = False"
| "isEqual_loop (a # as) (b # bs) =
     (if \<not> operator_eq a b then False else isEqual_loop as bs)"

section \<open>State vectors and the external kernel\<close>

text \<open>
  A \<open>StateVectorCudaManaged\<close> object is a device tag and a buffer of amplitudes. The
  pair of a host pointer and a length that the C++ entry points receive is the list of
  the amplitudes.
\<close>

record StateVectorCudaManaged =
  sv_dev_tag :: DevTag
  sv_data :: "CFP_t list"

text \<open>
  The kernels that act on amplitudes are not part of the sources. The model takes them
  as parameters: \<open>kernel_applyOperation\<close> stands for \<open>applyOperation\<close> (gate name, wires,
  adjoint flag, parameters, optional gate matrix), \<open>kernel_applyOperation_std\<close> for
  \<open>applyOperation_std\<close>, and \<open>kernel_method\<close> for the dedicated member functions
  \<open>applyPauliX\<close>, \<open>applyGeneratorIsingXX\<close>, ... (wires, adjoint flag). Kernel calls
  are taken to succeed.
\<close>

datatype sv_method =
    applyPauliX | applyPauliY | applyPauliZ
  | applyGeneratorIsingXX | applyGeneratorIsingYY | applyGeneratorIsingZZ
  | applyGeneratorSingleExcitation | applyGeneratorSingleExcitationMinus
  | applyGeneratorSingleExcitationPlus
  | applyGeneratorDoubleExcitation | applyGeneratorDoubleExcitationMinus
  | applyGeneratorDoubleExcitationPlus
  | applyGeneratorMultiRZ

record backend =
  kernel_applyOperation ::
    "string \<Rightarrow> nat list \<Rightarrow> bool \<Rightarrow> fp_t list \<Rightarrow> CFP_t list \<Rightarrow> CFP_t list \<Rightarrow> CFP_t list"
  kernel_applyOperation_std ::
    "string \<Rightarrow> nat list \<Rightarrow> bool \<Rightarrow> fp_t list \<Rightarrow> CFP_t list \<Rightarrow> CFP_t list \<Rightarrow> CFP_t list"
  kernel_method :: "sv_method \<Rightarrow> nat list \<Rightarrow> bool \<Rightarrow> CFP_t list \<Rightarrow> CFP_t list"

definition applyOperation ::
  "backend \<Rightarrow> string \<Rightarrow> nat list \<Rightarrow> bool \<Rightarrow> fp_t list \<Rightarrow> CFP_t list \<Rightarrow>
   StateVectorCudaManaged \<Rightarrow> StateVectorCudaManaged" where
  "applyOperation B opName wires adj params gate_matrix sv =
     sv\<lparr>sv_data := kernel_applyOperation B opName wires adj params gate_matrix (sv_data sv)\<rparr>"

definition applyOperation_std ::
  "backend \<Rightarrow> string \<Rightarrow> nat list \<Rightarrow> bool \<Rightarrow> fp_t list \<Rightarrow> CFP_t list \<Rightarrow>
   StateVectorCudaManaged \<Rightarrow> StateVectorCudaManaged" where
  "applyOperation_std B opName wires adj params gate_matrix sv =
     sv\<lparr>sv_data := kernel_applyOperation_std B opName wires adj params gate_matrix (sv_data sv)\<rparr>"

definition applyMethod ::
  "backend \<Rightarrow> sv_method \<Rightarrow> nat list \<Rightarrow> bool \<Rightarrow> StateVectorCudaManaged \<Rightarrow> StateVectorCudaManaged" where
  "applyMethod B m wires adj sv = sv\<lparr>sv_data := kernel_method B m wires adj (sv_data sv)\<rparr>"

text \<open>
  The two constructors used by the sweep: from host data on a device, and a fresh
  vector on a device. The C++ passes the qubit count \<open>n\<close> of \<open>lambda\<close> to the second and
  gets \<open>2 ^ n\<close> amplitudes, the length of \<open>lambda\<close>; the model passes that length. Every
  fresh vector is overwritten by \<open>updateData\<close> before it is read.
\<close>

definition sv_from_data :: "CFP_t list \<Rightarrow> DevTag \<Rightarrow> StateVectorCudaManaged" where
  "sv_from_data ref_data dev_tag = \<lparr>sv_dev_tag = dev_tag, sv_data = ref_data\<rparr>"

definition sv_fresh :: "nat \<Rightarrow> DevTag \<Rightarrow> StateVectorCudaManaged" where
  "sv_fresh len dev_tag = \<lparr>sv_dev_tag = dev_tag, sv_data = replicate len 0\<rparr>"

definition updateData :: "StateVectorCudaManaged \<Rightarrow> StateVectorCudaManaged \<Rightarrow> StateVectorCudaManaged" where
  "updateData sv other = sv\<lparr>sv_data := sv_data other\<rparr>"

text \<open>
  Modelled from the spec: the collaborators \<open>innerProdC_CUDA\<close> and \<open>scaleAndAddC_CUDA\<close>
  are not among the sources. The inner product is conjugate-linear in its first
  argument; the scaled add is \<open>y := a * x + y\<close>.
\<close>

definition innerProdC :: "CFP_t list \<Rightarrow> CFP_t list \<Rightarrow> CFP_t" where
  "innerProdC v1 v2 = sum_list (map2 (\<lambda>a b. cnj a * b) v1 v2)"

definition scaleAndAddC :: "CFP_t \<Rightarrow> CFP_t list \<Rightarrow> CFP_t list \<Rightarrow> CFP_t list" where
  "scaleAndAddC a x y = map2 (\<lambda>xi yi. a * xi + yi) x y"

text \<open>
  \<open>applyInPlace\<close> of the four observable classes. The Hamiltonian applies each term to
  its own copy of the input, scales it by the coefficient and adds it to an accumulator
  that starts at zero on the default device, then writes the accumulator back.
\<close>

fun applyInPlace :: "backend \<Rightarrow> ObservableGPU \<Rightarrow> StateVectorCudaManaged \<Rightarrow> StateVectorCudaManaged" where
  "applyInPlace B (NamedObs obs_name wires params) sv =
     applyOperation B obs_name wires False params [] sv"
| "applyInPlace B (HermitianObs matrix wires) sv =
     applyOperation_std B ''Hermitian'' wires False [] matrix sv"
| "applyInPlace B (TensorProdObs obs all_wires) sv = fold (applyInPlace B) obs sv"
| "applyInPlace B (HamiltonianObs coeffs obs) sv =
     (let d_res = sv_from_data (replicate (length (sv_data sv)) 0)
                    \<lparr>device_id = 0, stream_id = 0\<rparr>;
          tmps = map (\<lambda>ob. applyInPlace B ob sv) obs;
          d_res' = fold (\<lambda>(c, tmp) d. d\<lparr>sv_data := scaleAndAddC (Complex c 0) (sv_data tmp) (sv_data d)\<rparr>)
                     (zip coeffs tmps) d_res
      in updateData sv d_res')"

section \<open>The operations tape\<close>

text \<open>
  Modelled from the spec: \<open>OpsData\<close> (\<open>JacobianTape.hpp\<close>) is not among the sources.
  The tape is the ordered sequence of its operations, each with a name, its numeric
  parameters, its wires, its inverse flag and an optional matrix. An operation has
  parameters when its parameter list is not empty, and \<open>getNumParOps\<close> counts those
  operations.
\<close>

record Operation =
  op_name :: string
  op_params :: "fp_t list"
  op_wires :: "nat list"
  op_inverse :: bool
  op_matrix :: "CFP_t list"

type_synonym OpsData = "Operation list"

definition hasParams :: "Operation \<Rightarrow> bool" where
  "hasParams op = (op_params op \<noteq> [])"

definition getNumParOps :: "OpsData \<Rightarrow> nat" where
  "getNumParOps ops = length (filter hasParams ops)"

section \<open>The generator registry\<close>

definition getP11_CU :: "CFP_t list" where
  "getP11_CU = [0, 0, 0, 1]"

type_synonym GeneratorFunc =
  "backend \<Rightarrow> StateVectorCudaManaged \<Rightarrow> nat list \<Rightarrow> bool \<Rightarrow> error + StateVectorCudaManaged"

text \<open>
  The generator functions. Those of the controlled gates act on \<open>wires.back()\<close>, which
  has no defined behaviour on an empty wire list.
\<close>

definition applyGeneratorRX_GPU :: GeneratorFunc where
  "applyGeneratorRX_GPU B sv wires adj = Inr (applyMethod B applyPauliX wires adj sv)"

definition applyGeneratorRY_GPU :: GeneratorFunc where
  "applyGeneratorRY_GPU B sv wires adj = Inr (applyMethod B applyPauliY wires adj sv)"

definition applyGeneratorRZ_GPU :: GeneratorFunc where
  "applyGeneratorRZ_GPU B sv wires adj = Inr (applyMethod B applyPauliZ wires adj sv)"

definition applyGeneratorIsingXX_GPU :: GeneratorFunc where
  "applyGeneratorIsingXX_GPU B sv wires adj = Inr (applyMethod B applyGeneratorIsingXX wires adj sv)"

definition applyGeneratorIsingYY_GPU :: GeneratorFunc where
  "applyGeneratorIsingYY_GPU B sv wires adj = Inr (applyMethod B applyGeneratorIsingYY wires adj sv)"

definition applyGeneratorIsingZZ_GPU :: GeneratorFunc where
  "applyGeneratorIsingZZ_GPU B sv wires adj = Inr (applyMethod B applyGeneratorIsingZZ wires adj sv)"

definition applyGeneratorPhaseShift_GPU :: GeneratorFunc where
  "applyGeneratorPhaseShift_GPU B sv wires adj =
     Inr (applyOperation B ''P_11'' wires adj [0] getP11_CU sv)"

definition applyGeneratorCRX_GPU :: GeneratorFunc where
  "applyGeneratorCRX_GPU B sv wires adj =
     (if wires = [] then Inl Undefined_behaviour
      else Inr (applyMethod B applyPauliX [last wires] adj sv))"

definition applyGeneratorCRY_GPU :: GeneratorFunc where
  "applyGeneratorCRY_GPU B sv wires adj =
     (if wires = [] then Inl Undefined_behaviour
      else Inr (applyMethod B applyPauliY [last wires] adj sv))"

definition applyGeneratorCRZ_GPU :: GeneratorFunc where
  "applyGeneratorCRZ_GPU B sv wires adj =
     (if wires = [] then Inl Undefined_behaviour
      else Inr (applyMethod B applyPauliZ [last wires] adj sv))"

definition applyGeneratorControlledPhaseShift_GPU :: GeneratorFunc where
  "applyGeneratorControlledPhaseShift_GPU B sv wires adj =
     (if wires = [] then Inl Undefined_behaviour
      else Inr (applyOperation B ''P_11'' [last wires] adj [0] getP11_CU sv))"

definition applyGeneratorSingleExcitation_GPU :: GeneratorFunc where
  "applyGeneratorSingleExcitation_GPU B sv wires adj =
     Inr (applyMethod B applyGeneratorSingleExcitation wires adj sv)"

definition applyGeneratorSingleExcitationMinus_GPU :: GeneratorFunc where
  "applyGeneratorSingleExcitationMinus_GPU B sv wires adj =
     Inr (applyMethod B applyGeneratorSingleExcitationMinus wires adj sv)"

definition applyGeneratorSingleExcitationPlus_GPU :: GeneratorFunc where
  "applyGeneratorSingleExcitationPlus_GPU B sv wires adj =
     Inr (applyMethod B applyGeneratorSingleExcitationPlus wires adj sv)"

definition applyGeneratorDoubleExcitation_GPU :: GeneratorFunc where
  "applyGeneratorDoubleExcitation_GPU B sv wires adj =
     Inr (applyMethod B applyGeneratorDoubleExcitation wires adj sv)"

definition applyGeneratorDoubleExcitationMinus_GPU :: GeneratorFunc where
  "applyGeneratorDoubleExcitationMinus_GPU B sv wires adj =
     Inr (applyMethod B applyGeneratorDoubleExcitationMinus wires adj sv)"

definition applyGeneratorDoubleExcitationPlus_GPU :: GeneratorFunc where
  "applyGeneratorDoubleExcitationPlus_GPU B sv wires adj =
     Inr (applyMethod B applyGeneratorDoubleExcitationPlus wires adj sv)"

definition applyGeneratorMultiRZ_GPU :: GeneratorFunc where
  "applyGeneratorMultiRZ_GPU B sv wires adj = Inr (applyMethod B applyGeneratorMultiRZ wires adj sv)"

definition generator_table :: "(string \<times> GeneratorFunc) list" where
  "generator_table =
     [(''RX'', applyGeneratorRX_GPU),
      (''RY'', applyGeneratorRY_GPU),
      (''RZ'', applyGeneratorRZ_GPU),
      (''IsingXX'', applyGeneratorIsingXX_GPU),
      (''IsingYY'', applyGeneratorIsingYY_GPU),
      (''IsingZZ'', applyGeneratorIsingZZ_GPU),
      (''CRX'', applyGeneratorCRX_GPU),
      (''CRY'', applyGeneratorCRY_GPU),
      (''CRZ'', applyGeneratorCRZ_GPU),
      (''PhaseShift'', applyGeneratorPhaseShift_GPU),
      (''ControlledPhaseShift'', applyGeneratorControlledPhaseShift_GPU),
      (''SingleExcitation'', applyGeneratorSingleExcitation_GPU),
      (''SingleExcitationMinus'', applyGeneratorSingleExcitationMinus_GPU),
      (''SingleExcitationPlus'', applyGeneratorSingleExcitationPlus_GPU),
      (''DoubleExcitation'', applyGeneratorDoubleExcitation_GPU),
      (''DoubleExcitationMinus'', applyGeneratorDoubleExcitationMinus_GPU),
      (''DoubleExcitationPlus'', applyGeneratorDoubleExcitationPlus_GPU),
      (''MultiRZ'', applyGeneratorMultiRZ_GPU)]"

definition generator_map :: "string \<rightharpoonup> GeneratorFunc" where
  "generator_map = map_of generator_table"

definition scaling_table :: "(string \<times> fp_t) list" where
  "scaling_table =
     [(''RX'', - 0.5),
      (''RY'', - 0.5),
      (''RZ'', - 0.5),
      (''IsingXX'', - 0.5),
      (''IsingYY'', - 0.5),
      (''IsingZZ'', - 0.5),
      (''PhaseShift'', 1),
      (''CRX'', - 0.5),
      (''CRY'', - 0.5),
      (''CRZ'', - 0.5),
      (''ControlledPhaseShift'', 1),
      (''SingleExcitation'', - 0.5),
      (''SingleExcitationMinus'', - 0.5),
      (''SingleExcitationPlus'', - 0.5),
      (''DoubleExcitation'', - 0.5),
      (''DoubleExcitationMinus'', - 0.5),
      (''DoubleExcitationPlus'', - 0.5),
      (''MultiRZ'', - 0.5)]"

definition scaling_factors :: "string \<rightharpoonup> fp_t" where
  "scaling_factors = map_of scaling_table"

text \<open>
  \<open>applyGenerator\<close>: both lookups are \<open>at\<close>, which throws \<open>std::out_of_range\<close> for a
  name that is not a key.
\<close>

definition applyGenerator ::
  "backend \<Rightarrow> StateVectorCudaManaged \<Rightarrow> string \<Rightarrow> nat list \<Rightarrow> bool \<Rightarrow>
   error + (StateVectorCudaManaged \<times> fp_t)" where
  "applyGenerator B sv opName wires adj =
     (case generator_map opName of
        None \<Rightarrow> Inl Std_out_of_range
      | Some g \<Rightarrow>
          (case g B sv wires adj of
             Inl e \<Rightarrow> Inl e
           | Inr sv' \<Rightarrow>
               (case scaling_factors opName of
                  None \<Rightarrow> Inl Std_out_of_range
                | Some c \<Rightarrow> Inr (sv', c))))"

section \<open>The adjoint sweep (\<open>adjointJacobian\<close>)\<close>

text \<open>
  \<open>updateJacobian\<close> writes one entry of the row-major buffer. The index is computed in
  \<open>size_t\<close>. A write beyond the buffer is undefined in C++.
\<close>

definition getJacIndex :: "size_t \<Rightarrow> size_t \<Rightarrow> size_t \<Rightarrow> size_t" where
  "getJacIndex obs_index tp_index tp_size = obs_index * tp_size + tp_index"

definition updateJacobian ::
  "StateVectorCudaManaged \<Rightarrow> StateVectorCudaManaged \<Rightarrow> fp_t list \<Rightarrow> fp_t \<Rightarrow>
   size_t \<Rightarrow> size_t \<Rightarrow> size_t \<Rightarrow> error + fp_t list" where
  "updateJacobian sv1 sv2 jac scaling_coeff obs_index param_index tp_size =
     (if device_id (sv_dev_tag sv1) \<noteq> device_id (sv_dev_tag sv2)
      then Inl (LightningException ''Data exists on different GPUs. Aborting.'')
      else if unat (obs_index * tp_size + param_index) < length jac
      then Inr (jac[unat (obs_index * tp_size + param_index) :=
                  - 2 * scaling_coeff * Im (innerProdC (sv_data sv1) (sv_data sv2))])
      else Inl Undefined_behaviour)"

text \<open>
  The loop over the observables inside the sweep, \<open>obs_idx\<close> running over the
  positions of \<open>H_lambda\<close>. The iterations write different entries and are independent;
  they are taken in index order. An error result carries the buffer as it is when the
  error is raised.
\<close>

fun updateJacobian_loop ::
  "StateVectorCudaManaged list \<Rightarrow> nat \<Rightarrow> StateVectorCudaManaged \<Rightarrow> fp_t list \<Rightarrow> fp_t \<Rightarrow>
   size_t \<Rightarrow> size_t \<Rightarrow> (error \<times> fp_t list) + fp_t list" where
  "updateJacobian_loop [] obs_idx mu jac scalingFactor trainableParamNumber tp_size = Inr jac"
| "updateJacobian_loop (h # hs) obs_idx mu jac scalingFactor trainableParamNumber tp_size =
     (case updateJacobian h mu jac scalingFactor (of_nat obs_idx) trainableParamNumber tp_size of
        Inl e \<Rightarrow> Inl (e, jac)
      | Inr jac' \<Rightarrow>
          updateJacobian_loop hs (Suc obs_idx) mu jac' scalingFactor trainableParamNumber tp_size)"

definition applyOperations ::
  "backend \<Rightarrow> StateVectorCudaManaged \<Rightarrow> OpsData \<Rightarrow> bool \<Rightarrow> StateVectorCudaManaged" where
  "applyOperations B state operations adj =
     fold (\<lambda>op sv. applyOperation B (op_name op) (op_wires op) (op_inverse op \<noteq> adj)
                     (op_params op) [] sv)
       operations state"

definition applyOperationAdj ::
  "backend \<Rightarrow> Operation \<Rightarrow> StateVectorCudaManaged \<Rightarrow> StateVectorCudaManaged" where
  "applyOperationAdj B op state =
     applyOperation B (op_name op) (op_wires op) (\<not> op_inverse op) (op_params op) [] state"

definition applyObservables ::
  "backend \<Rightarrow> StateVectorCudaManaged list \<Rightarrow> StateVectorCudaManaged \<Rightarrow> ObservableGPU list \<Rightarrow>
   StateVectorCudaManaged list" where
  "applyObservables B states reference_state observables =
     map2 (\<lambda>state ob. applyInPlace B ob (updateData state reference_state)) states observables"

definition applyOperationsAdj ::
  "backend \<Rightarrow> Operation \<Rightarrow> StateVectorCudaManaged list \<Rightarrow> StateVectorCudaManaged list" where
  "applyOperationsAdj B op states = map (applyOperationAdj B op) states"

text \<open>
  The variables that the reverse loop of \<open>adjointJacobian\<close> changes. \<open>st_tp_it\<close> is what
  the reverse iterator \<open>tp_it\<close> has still to visit: the trainable parameters from the
  current one down to the first; it is empty when \<open>tp_it == tp_rend\<close>.
\<close>

record sweep_state =
  st_lambda :: StateVectorCudaManaged
  st_H_lambda :: "StateVectorCudaManaged list"
  st_mu :: StateVectorCudaManaged
  st_jac :: "fp_t list"
  st_tp_it :: "size_t list"
  st_current_param_idx :: size_t
  st_trainableParamNumber :: size_t

text \<open>
  The body of \<open>if (ops.hasParams(op_idx))\<close>: on a match the generator is applied to
  \<open>mu\<close>, every observable's entry of the current column is written, and both cursors
  move; in every case the count of parametric operations goes down by one.
\<close>

definition param_branch ::
  "backend \<Rightarrow> size_t \<Rightarrow> Operation \<Rightarrow> sweep_state \<Rightarrow> (error \<times> fp_t list) + sweep_state" where
  "param_branch B tp_size op st =
     (if st_current_param_idx st = hd (st_tp_it st) then
        (case applyGenerator B (st_mu st) (op_name op) (op_wires op) (\<not> op_inverse op) of
           Inl e \<Rightarrow> Inl (e, st_jac st)
         | Inr (mu', c) \<Rightarrow>
             (let scalingFactor = c * (if op_inverse op then - 1 else 1) in
              case updateJacobian_loop (st_H_lambda st) 0 mu' (st_jac st) scalingFactor
                     (st_trainableParamNumber st) tp_size of
                Inl ej \<Rightarrow> Inl ej
              | Inr jac' \<Rightarrow>
                  Inr (st\<lparr>st_mu := mu', st_jac := jac',
                           st_trainableParamNumber := st_trainableParamNumber st - 1,
                           st_tp_it := tl (st_tp_it st),
                           st_current_param_idx := st_current_param_idx st - 1\<rparr>)))
      else Inr (st\<lparr>st_current_param_idx := st_current_param_idx st - 1\<rparr>))"

text \<open>
  One iteration of the reverse loop on the operation at \<open>op_idx\<close>. The result is an
  error, or the new state with a flag that is \<open>False\<close> after \<open>break\<close>. \<open>param_branch\<close>
  is only called with a pending trainable parameter, so its \<open>hd\<close> is the \<open>*tp_it\<close> of
  the code.
\<close>

definition sweep_iteration ::
  "backend \<Rightarrow> size_t \<Rightarrow> Operation \<Rightarrow> sweep_state \<Rightarrow> (error \<times> fp_t list) + (bool \<times> sweep_state)" where
  "sweep_iteration B tp_size op st =
     (if length (op_params op) > 1 then
        Inl (LightningException
               ''The operation is not supported using the adjoint differentiation method'',
             st_jac st)
      else if op_name op = ''QubitStateVector'' \<or> op_name op = ''BasisState'' then Inr (True, st)
      else if st_tp_it st = [] then Inr (False, st)
      else
        (let st1 = st\<lparr>st_mu := updateData (st_mu st) (st_lambda st),
                       st_lambda := applyOperationAdj B op (st_lambda st)\<rparr>
         in case (if hasParams op then param_branch B tp_size op st1 else Inr st1) of
              Inl ej \<Rightarrow> Inl ej
            | Inr st2 \<Rightarrow>
                Inr (True, st2\<lparr>st_H_lambda := applyOperationsAdj B op (st_H_lambda st2)\<rparr>)))"

text \<open>The loop, over the operations in the order in which it visits them (last first).\<close>

fun sweep_loop ::
  "backend \<Rightarrow> size_t \<Rightarrow> Operation list \<Rightarrow> sweep_state \<Rightarrow> (error \<times> fp_t list) + sweep_state" where
  "sweep_loop B tp_size [] st = Inr st"
| "sweep_loop B tp_size (op # earlier) st =
     (case sweep_iteration B tp_size op st of
        Inl ej \<Rightarrow> Inl ej
      | Inr (go_on, st') \<Rightarrow> if go_on then sweep_loop B tp_size earlier st' else Inr st')"

text \<open>
  The loop variable is \<open>int op_idx = static_cast<int>(ops_name.size() - 1)\<close>: the
  subtraction is in \<open>size_t\<close>, the cast keeps the low 32 bits as a signed value, and the
  loop visits \<open>op_idx, op_idx - 1, ..., 0\<close>.
\<close>

definition first_op_idx :: "nat \<Rightarrow> int" where
  "first_op_idx n = sint (ucast ((of_nat n :: size_t) - 1) :: 32 word)"

definition visited_ops :: "OpsData \<Rightarrow> Operation list" where
  "visited_ops ops = rev (take (nat (first_op_idx (length ops) + 1)) ops)"

text \<open>
  The part of \<open>adjointJacobian\<close> before the loop: the cursors, \<open>lambda\<close> (with the tape
  applied first when requested), one state per observable with the observable applied,
  and the scratch state \<open>mu\<close>.
\<close>

definition sweep_init ::
  "backend \<Rightarrow> CFP_t list \<Rightarrow> fp_t list \<Rightarrow> ObservableGPU list \<Rightarrow> OpsData \<Rightarrow> size_t list \<Rightarrow>
   bool \<Rightarrow> DevTag \<Rightarrow> sweep_state" where
  "sweep_init B ref_data jac obs ops trainableParams apply_operations dev_tag =
     (let num_observables = length obs;
          tp_size = (of_nat (length trainableParams) :: size_t);
          num_param_ops = (of_nat (getNumParOps ops) :: size_t);
          trainableParamNumber = tp_size - 1;
          current_param_idx = num_param_ops - 1;
          dt_local = dev_tag;
          lambda0 = sv_from_data ref_data dt_local;
          lambda = (if apply_operations then applyOperations B lambda0 ops False else lambda0);
          H_lambda = applyObservables B
                       (replicate num_observables (sv_fresh (length (sv_data lambda)) dt_local))
                       lambda obs;
          mu = sv_fresh (length (sv_data lambda)) dt_local
      in \<lparr>st_lambda = lambda, st_H_lambda = H_lambda, st_mu = mu, st_jac = jac,
          st_tp_it = rev trainableParams, st_current_param_idx = current_param_idx,
          st_trainableParamNumber = trainableParamNumber\<rparr>)"

text \<open>
  \<open>adjointJacobian\<close>. The result is the filled buffer, or the exception together with
  the caller's buffer as the exception leaves it.
\<close>

definition adjointJacobian ::
  "backend \<Rightarrow> CFP_t list \<Rightarrow> fp_t list \<Rightarrow> ObservableGPU list \<Rightarrow> OpsData \<Rightarrow> size_t list \<Rightarrow>
   bool \<Rightarrow> DevTag \<Rightarrow> (error \<times> fp_t list) + fp_t list" where
  "adjointJacobian B ref_data jac obs ops trainableParams apply_operations dev_tag =
     (if trainableParams = [] then
        Inl (LightningException ''No trainable parameters provided.'', jac)
      else
        (case sweep_loop B (of_nat (length trainableParams)) (visited_ops ops)
                (sweep_init B ref_data jac obs ops trainableParams apply_operations dev_tag) of
           Inl ej \<Rightarrow> Inl ej
         | Inr st \<Rightarrow> Inr (st_jac st)))"

text \<open>
  For the statements about what happens "during the sweep": \<open>sweep_arrives\<close> is the
  state in which the loop arrives after it has visited the given operations, provided
  none of these visits raised an exception or left the loop.
\<close>

fun sweep_arrives ::
  "backend \<Rightarrow> size_t \<Rightarrow> Operation list \<Rightarrow> sweep_state \<Rightarrow> sweep_state option" where
  "sweep_arrives B tp_size [] st = Some st"
| "sweep_arrives B tp_size (op # earlier) st =
     (case sweep_iteration B tp_size op st of
        Inl ej \<Rightarrow> None
      | Inr (go_on, st') \<Rightarrow> if go_on then sweep_arrives B tp_size earlier st' else None)"

definition is_state_prep :: "Operation \<Rightarrow> bool" where
  "is_state_prep op = (op_name op = ''QubitStateVector'' \<or> op_name op = ''BasisState'')"

text \<open>
  The value of the counter \<open>current_param_idx\<close> when the walk arrives at a parametric
  operation that has the operations \<open>before\<close> in front of it and the operations
  \<open>later\<close> behind it in the tape (\<open>position_counter\<close> below): the number of parametric
  operations in front of it, which is its forward-order position among the parametric
  operations, plus the number of parametric state preparations behind it, which
  \<open>getNumParOps\<close> counts and the loop skips before it lowers the counter.
\<close>

definition counter_at :: "Operation list \<Rightarrow> Operation list \<Rightarrow> size_t" where
  "counter_at before later =
     of_nat (length (filter hasParams before)
             + length (filter (\<lambda>q. hasParams q \<and> is_state_prep q) later))"

section \<open>The device pool and the multi-device batcher (\<open>batchAdjointJacobian\<close>)\<close>

text \<open>
  Modelled from the spec: \<open>DevicePool.hpp\<close> is not among the sources. The pool is a
  registry of device identifiers with availability flags. \<open>acquireDevice\<close> takes the
  first available device and flags it as taken; when no device is available it blocks,
  which is the result \<open>None\<close>. \<open>releaseDevice\<close> flags the device as available again.
\<close>

type_synonym DevicePool = "(int \<times> bool) list"

text \<open>The pool that the default constructor builds on a machine with \<open>n\<close> devices.\<close>

definition DevicePool_new :: "nat \<Rightarrow> DevicePool" where
  "DevicePool_new n = map (\<lambda>d. (int d, True)) [0..<n]"

definition getTotalDevices :: "DevicePool \<Rightarrow> size_t" where
  "getTotalDevices dp = of_nat (length dp)"

fun acquireDevice :: "DevicePool \<Rightarrow> (int \<times> DevicePool) option" where
  "acquireDevice [] = None"
| "acquireDevice ((dev, available) # dp) =
     (if available then Some (dev, (dev, False) # dp)
      else (case acquireDevice dp of
              None \<Rightarrow> None
            | Some (dev', dp') \<Rightarrow> Some (dev', (dev, available) # dp')))"

definition releaseDevice :: "int \<Rightarrow> DevicePool \<Rightarrow> DevicePool" where
  "releaseDevice dev dp = map (\<lambda>(d, available). if d = dev then (d, True) else (d, available)) dp"

definition isAvailable :: "int \<Rightarrow> DevicePool \<Rightarrow> bool" where
  "isAvailable dev dp = ((dev, True) \<in> set dp)"

text \<open>
  \<open>static_cast<std::size_t>(std::ceil(x))\<close> for a \<open>size_t\<close> value \<open>x\<close>: the value is
  converted to \<open>double\<close> (53 significant bits, round to nearest, ties to even), \<open>ceil\<close>
  leaves the integral value as it is, and the conversion back is undefined when the
  value is \<open>2 ^ 64\<close>.
\<close>

definition double_of_nat :: "nat \<Rightarrow> nat" where
  "double_of_nat n =
     (if n < 2 ^ 53 then n
      else (let ulp = 2 ^ (floorlog 2 n - 53); q = n div ulp; r = n mod ulp
            in (if 2 * r > ulp \<or> (2 * r = ulp \<and> odd q) then q + 1 else q) * ulp))"

definition ceil_size_t :: "size_t \<Rightarrow> error + size_t" where
  "ceil_size_t x =
     (if double_of_nat (unat x) < 2 ^ 64 then Inr (of_nat (double_of_nat (unat x)))
      else Inl Undefined_behaviour)"

definition chunk_first :: "size_t \<Rightarrow> size_t \<Rightarrow> size_t \<Rightarrow> error + size_t" where
  "chunk_first obs_size i num_chunks = ceil_size_t (obs_size * i div num_chunks)"

definition chunk_last :: "size_t \<Rightarrow> size_t \<Rightarrow> size_t \<Rightarrow> error + size_t" where
  "chunk_last obs_size i num_chunks = ceil_size_t ((obs_size * (i + 1) div num_chunks) - 1)"

text \<open>
  The iterator range \<open>{obs.begin() + first, obs.begin() + last + 1}\<close>; a range that is
  not inside the vector is undefined.
\<close>

definition obs_range :: "ObservableGPU list \<Rightarrow> size_t \<Rightarrow> size_t \<Rightarrow> error + ObservableGPU list" where
  "obs_range obs first last_ob =
     (if unat first \<le> unat (last_ob + 1) \<and> unat (last_ob + 1) \<le> length obs
      then Inr (take (unat (last_ob + 1) - unat first) (drop (unat first) obs))
      else Inl Undefined_behaviour)"

text \<open>
  The thread body \<open>adj_lambda\<close> as a function of the pool. Its outcomes: it never gets a
  device, or it ends by an exception, or it delivers its block; the last two carry the
  pool as the worker leaves it.
\<close>

datatype worker_result =
    Worker_blocked
  | Worker_raised error DevicePool
  | Worker_done "fp_t list" DevicePool

definition adj_lambda ::
  "backend \<Rightarrow> DevicePool \<Rightarrow> CFP_t list \<Rightarrow> ObservableGPU list \<Rightarrow> OpsData \<Rightarrow> size_t list \<Rightarrow>
   bool \<Rightarrow> size_t \<Rightarrow> size_t \<Rightarrow> worker_result" where
  "adj_lambda B dp ref_data obs ops trainableParams apply_operations first last_ob =
     (case acquireDevice dp of
        None \<Rightarrow> Worker_blocked
      | Some (dev, dp1) \<Rightarrow>
          (let dt_local = \<lparr>device_id = dev, stream_id = 0\<rparr>;
               local_sv = sv_from_data ref_data dt_local;
               jac_local = replicate (unat ((last_ob - first + 1) * of_nat (length trainableParams))) 0
           in case obs_range obs first last_ob of
                Inl e \<Rightarrow> Worker_raised e dp1
              | Inr shard \<Rightarrow>
                  (case adjointJacobian B (sv_data local_sv) jac_local shard ops trainableParams
                          apply_operations dt_local of
                     Inl (e, _) \<Rightarrow> Worker_raised e dp1
                   | Inr jac_local' \<Rightarrow> Worker_done jac_local' (releaseDevice dev dp1))))"

text \<open>
  The first loop of \<open>batchAdjointJacobian\<close> starts one thread per chunk. The threads run
  concurrently and each holds one device while it works; the model runs them one after
  the other in chunk order, which is one of the possible schedules. An exception that
  leaves a thread ends the program; the model reports it as the error of the run,
  with the caller's buffer. The lambda captures the loop's locals \<open>first\<close> and \<open>last\<close>
  by reference, and these end with their iteration: a worker that reads them later
  reads what the stack then holds, in practice the bounds of a later chunk, and a
  shallow embedding cannot say which. The model follows the schedule in which every
  worker reads the bounds while its own iteration is alive, so each worker gets the
  bounds of its own chunk. The merge loop below computes its offsets in the main thread
  and does not depend on this.
\<close>

fun run_chunks ::
  "backend \<Rightarrow> DevicePool \<Rightarrow> CFP_t list \<Rightarrow> ObservableGPU list \<Rightarrow> OpsData \<Rightarrow> size_t list \<Rightarrow>
   bool \<Rightarrow> size_t \<Rightarrow> nat list \<Rightarrow> error + fp_t list list" where
  "run_chunks B dp ref_data obs ops trainableParams apply_operations num_chunks [] = Inr []"
| "run_chunks B dp ref_data obs ops trainableParams apply_operations num_chunks (i # is) =
     (case chunk_first (of_nat (length obs)) (of_nat i) num_chunks of
        Inl e \<Rightarrow> Inl e
      | Inr first \<Rightarrow>
          (case chunk_last (of_nat (length obs)) (of_nat i) num_chunks of
             Inl e \<Rightarrow> Inl e
           | Inr last_ob \<Rightarrow>
               (case adj_lambda B dp ref_data obs ops trainableParams apply_operations first last_ob of
                  Worker_blocked \<Rightarrow> Inl Blocked
                | Worker_raised e dp' \<Rightarrow> Inl e
                | Worker_done jac_rows dp' \<Rightarrow>
                    (case run_chunks B dp' ref_data obs ops trainableParams apply_operations
                            num_chunks is of
                       Inl e \<Rightarrow> Inl e
                     | Inr rest \<Rightarrow> Inr (jac_rows # rest)))))"

text \<open>
  The number of devices of the machine, \<open>total_devices\<close>, is a parameter of
  \<open>batchAdjointJacobian\<close> in the model. The second loop copies the blocks into the caller's buffer:
  \<open>jac.at(first + j) = jac_rows[j]\<close>, where \<open>at\<close> throws \<open>std::out_of_range\<close> beyond
  the buffer.
\<close>

fun merge_rows :: "fp_t list \<Rightarrow> size_t \<Rightarrow> nat \<Rightarrow> fp_t list \<Rightarrow> (error \<times> fp_t list) + fp_t list" where
  "merge_rows jac first j [] = Inr jac"
| "merge_rows jac first j (v # jac_rows) =
     (if unat (first + of_nat j) < length jac
      then merge_rows (jac[unat (first + of_nat j) := v]) first (Suc j) jac_rows
      else Inl (Std_out_of_range, jac))"

fun merge_chunks ::
  "fp_t list \<Rightarrow> size_t \<Rightarrow> size_t \<Rightarrow> nat \<Rightarrow> fp_t list list \<Rightarrow> (error \<times> fp_t list) + fp_t list" where
  "merge_chunks jac obs_size num_chunks i [] = Inr jac"
| "merge_chunks jac obs_size num_chunks i (jac_rows # futures) =
     (case chunk_first obs_size (of_nat i) num_chunks of
        Inl e \<Rightarrow> Inl (e, jac)
      | Inr first \<Rightarrow>
          (case merge_rows jac first 0 jac_rows of
             Inl ej \<Rightarrow> Inl ej
           | Inr jac' \<Rightarrow> merge_chunks jac' obs_size num_chunks (Suc i) futures))"

definition batchAdjointJacobian ::
  "backend \<Rightarrow> nat \<Rightarrow> CFP_t list \<Rightarrow> fp_t list \<Rightarrow> ObservableGPU list \<Rightarrow> OpsData \<Rightarrow>
   size_t list \<Rightarrow> bool \<Rightarrow> (error \<times> fp_t list) + fp_t list" where
  "batchAdjointJacobian B total_devices ref_data jac obs ops trainableParams apply_operations =
     (let dp = DevicePool_new total_devices;
          num_gpus = getTotalDevices dp;
          num_chunks = num_gpus
      in case run_chunks B dp ref_data obs ops trainableParams apply_operations num_chunks
                [0..<unat num_chunks] of
           Inl e \<Rightarrow> Inl (e, jac)
         | Inr futures \<Rightarrow> merge_chunks jac (of_nat (length obs)) num_chunks 0 futures)"

section \<open>An exact kernel for one qubit\<close>

text \<open>
  To run the model on concrete inputs the kernel parameters are instantiated with the
  exact arithmetic of a single qubit: the state has two amplitudes, \<open>PauliX\<close>,
  \<open>PauliY\<close>, \<open>PauliZ\<close> and \<open>RX\<close> have their usual matrices, a gate that comes with a
  matrix is that matrix, and the adjoint flag applies the conjugate transpose. Names
  and methods that do not belong to one qubit leave the amplitudes as they are.
\<close>

definition qubit_gate :: "string \<Rightarrow> fp_t list \<Rightarrow> CFP_t list" where
  "qubit_gate opName params =
     (if opName = ''PauliX'' then [0, 1, 1, 0]
      else if opName = ''PauliY'' then [0, - \<i>, \<i>, 0]
      else if opName = ''PauliZ'' then [1, 0, 0, - 1]
      else if opName = ''RX'' \<and> length params = 1 then
        [complex_of_real (cos (hd params / 2)), - \<i> * complex_of_real (sin (hd params / 2)),
         - \<i> * complex_of_real (sin (hd params / 2)), complex_of_real (cos (hd params / 2))]
      else [1, 0, 0, 1])"

fun apply_qubit_matrix :: "CFP_t list \<Rightarrow> bool \<Rightarrow> CFP_t list \<Rightarrow> CFP_t list" where
  "apply_qubit_matrix [a, b, c, d] adj [x, y] =
     (if adj then [cnj a * x + cnj c * y, cnj b * x + cnj d * y]
      else [a * x + b * y, c * x + d * y])"
| "apply_qubit_matrix m adj v = v"

definition qubit_method :: "sv_method \<Rightarrow> nat list \<Rightarrow> bool \<Rightarrow> CFP_t list \<Rightarrow> CFP_t list" where
  "qubit_method m wires adj v =
     (if m = applyPauliX then apply_qubit_matrix (qubit_gate ''PauliX'' []) adj v
      else if m = applyPauliY then apply_qubit_matrix (qubit_gate ''PauliY'' []) adj v
      else if m = applyPauliZ then apply_qubit_matrix (qubit_gate ''PauliZ'' []) adj v
      else v)"

definition qubit_backend :: backend where
  "qubit_backend =
     \<lparr>kernel_applyOperation =
        (\<lambda>opName wires adj params gate_matrix v.
           apply_qubit_matrix (if gate_matrix = [] then qubit_gate opName params else gate_matrix) adj v),
      kernel_applyOperation_std =
        (\<lambda>opName wires adj params gate_matrix v. apply_qubit_matrix gate_matrix adj v),
      kernel_method = qubit_method\<rparr>"

text \<open>Shorthands for the operations and observables of the concrete runs.\<close>

definition gate_op :: "string \<Rightarrow> fp_t list \<Rightarrow> nat list \<Rightarrow> Operation" where
  "gate_op opName params wires =
     \<lparr>op_name = opName, op_params = params, op_wires = wires, op_inverse = False, op_matrix = []\<rparr>"

definition dev0 :: DevTag where
  "dev0 = \<lparr>device_id = 0, stream_id = 0\<rparr>"

text \<open>
  The state in which the sweep enters its loop in two runs on one qubit in the state
  \<open>(3/5, 4i/5)\<close> with the tape \<open>RX(0), RX(0)\<close>, written as the operations before the
  last one, the last one, and the operations after it: with the observables \<open>PauliZ\<close>
  and \<open>PauliY\<close> and both parameters trainable, and with \<open>PauliZ\<close> and only the first
  parameter trainable.
\<close>

definition run_init :: sweep_state where
  "run_init = sweep_init qubit_backend [3 / 5, 4 * \<i> / 5] [0, 0, 0, 0]
     [NamedObs ''PauliZ'' [0] [], NamedObs ''PauliY'' [0] []]
     ([gate_op ''RX'' [0] [0]] @ gate_op ''RX'' [0] [0] # []) [0, 1] False dev0"

definition sparse_init :: sweep_state where
  "sparse_init = sweep_init qubit_backend [3 / 5, 4 * \<i> / 5] [0]
     [NamedObs ''PauliZ'' [0] []]
     ([gate_op ''RX'' [0] [0]] @ gate_op ''RX'' [0] [0] # []) [0] False dev0"

section \<open>An invariant of the loop\<close>

text \<open>
  What every iteration of the loop preserves: all states live on the device of the
  sweep, there is one bra state per observable, the buffer keeps its length, and the
  column counter is the number of pending trainable parameters minus one.
\<close>

definition sweep_inv :: "DevTag \<Rightarrow> nat \<Rightarrow> nat \<Rightarrow> sweep_state \<Rightarrow> bool" where
  "sweep_inv dev n_obs jac_len st =
     (sv_dev_tag (st_lambda st) = dev \<and> sv_dev_tag (st_mu st) = dev
      \<and> list_all (\<lambda>h. sv_dev_tag h = dev) (st_H_lambda st)
      \<and> length (st_H_lambda st) = n_obs \<and> length (st_jac st) = jac_len
      \<and> st_trainableParamNumber st = of_nat (length (st_tp_it st)) - 1)"

section \<open>Evaluation rules for concrete runs\<close>

lemmas sweep_defs =
  adjointJacobian_def sweep_init_def visited_ops_def first_op_idx_def getNumParOps_def hasParams_def
  sv_from_data_def sv_fresh_def applyObservables_def updateData_def applyOperation_def
  applyOperation_std_def applyMethod_def sweep_iteration_def param_branch_def
  applyGenerator_def generator_map_def generator_table_def scaling_factors_def
  scaling_table_def applyGeneratorRX_GPU_def updateJacobian_def innerProdC_def
  applyOperationAdj_def applyOperationsAdj_def applyOperations_def Let_def

lemmas qubit_defs =
  qubit_backend_def qubit_gate_def qubit_method_def gate_op_def dev0_def

lemmas batch_defs =
  batchAdjointJacobian_def DevicePool_new_def getTotalDevices_def chunk_first_def
  chunk_last_def ceil_size_t_def double_of_nat_def obs_range_def adj_lambda_def
  releaseDevice_def

lemma upt_2: "[0..<2] = [0, 1]"
  by (simp add: upt_rec)

lemma replicate_2: "replicate 2 x = [x, x]"
  by (simp add: numeral_2_eq_2)

lemma run_init_eq:
  "run_init =
     \<lparr>st_lambda = sv_from_data [3 / 5, 4 * \<i> / 5] dev0,
      st_H_lambda = [sv_from_data [3 / 5, - (4 * \<i> / 5)] dev0, sv_from_data [4 / 5, 3 * \<i> / 5] dev0],
      st_mu = sv_fresh 2 dev0, st_jac = [0, 0, 0, 0], st_tp_it = [1, 0],
      st_current_param_idx = 1, st_trainableParamNumber = 1\<rparr>"
  by (simp add: run_init_def sweep_defs qubit_defs replicate_2)

lemma less_2_all: "(\<forall>i < (2::nat). P i) = (P 0 \<and> P 1)"
  by (auto simp: less_2_cases_iff)

section \<open>The gate cache\<close>

lemma map_find_modify:
  "gate_id_equal k k \<Longrightarrow>
     map_find k (map_modify dflt f k m) =
       Some (f (case map_find k m of None \<Rightarrow> dflt | Some v \<Rightarrow> v))"
  by (induction m) auto

lemma map_find_iff:
  "(map_find k m \<noteq> None) = (\<exists>e \<in> set m. gate_id_equal (fst e) k)"
  by (induction m) auto

text \<open>
  Claim C10, as stated, fails for the parameter value NaN. The key that holds it never
  compares equal to itself: \<open>add_gate\<close> stores the matrix in an entry that no lookup
  finds, reads back a fresh empty entry, and afterwards \<open>gateExists\<close> is false and
  \<open>get_gate_host\<close> returns an empty vector.
\<close>

theorem add_gate_nan_parameter:
  "\<not> gateExists ''RX'' NaN (add_gate ''RX'' NaN [0, 1, 1, 0] (GateCache_new 0 0))
   \<and> fst (get_gate_host ''RX'' NaN (add_gate ''RX'' NaN [0, 1, 1, 0] (GateCache_new 0 0))) = []"
  by (simp add: gateExists_def add_gate_def get_gate_host_def map_subscript_def
      GateCache_new_def gate_id_equal_def Let_def)

text \<open>
  Claim C10, amended. For every gate name, every parameter value that is a number (not
  NaN) and every host matrix: after \<open>add_gate(name, param, matrix)\<close>,
  \<open>gateExists(name, param)\<close> is true and \<open>get_gate_host(name, param)\<close> returns the
  matrix that was inserted, leaving the cache as it is; and for every key, NaN or not,
  \<open>gateExists\<close> is true exactly when an entry of the host-side map and an entry of the
  device-side map have a key that compares equal to it.
\<close>

theorem add_gate_then_lookup:
  "gateExists gate_name (Num r) (add_gate gate_name (Num r) host_in c)
   \<and> get_gate_host gate_name (Num r) (add_gate gate_name (Num r) host_in c) =
       (host_in, add_gate gate_name (Num r) host_in c)
   \<and> (gateExists n p c' =
        ((\<exists>e \<in> set (host_gates c'). gate_id_equal (fst e) (n, p))
         \<and> (\<exists>e \<in> set (device_gates c'). gate_id_equal (fst e) (n, p))))"
proof -
  let ?k = "(gate_name, Num r)"
  let ?c = "add_gate gate_name (Num r) host_in c"
  let ?host1 = "map_modify [] (\<lambda>_. host_in) ?k (host_gates c)"
  have refl: "gate_id_equal ?k ?k" by (simp add: gate_id_equal_def)
  have h1: "map_find ?k ?host1 = Some host_in"
    by (simp add: map_find_modify [OF refl])
  then have sub: "map_subscript [] ?k ?host1 = (host_in, ?host1)"
    by (simp add: map_subscript_def)
  have host: "host_gates ?c = ?host1"
    using sub by (simp add: add_gate_def Let_def)
  have dev: "map_find ?k (device_gates ?c) \<noteq> None"
    using sub by (simp add: add_gate_def Let_def map_find_modify [OF refl])
  have ex: "gateExists gate_name (Num r) ?c"
    using host h1 dev by (simp add: gateExists_def)
  have get: "get_gate_host gate_name (Num r) ?c = (host_in, ?c)"
    using host h1 by (simp add: get_gate_host_def map_subscript_def)
  have iff: "gateExists n p c' =
        ((\<exists>e \<in> set (host_gates c'). gate_id_equal (fst e) (n, p))
         \<and> (\<exists>e \<in> set (device_gates c'). gate_id_equal (fst e) (n, p)))"
    unfolding gateExists_def map_find_iff ..
  show ?thesis using ex get iff by blast
qed

theorem add_gate_then_lookup_witness:
  "gateExists ''PauliX'' (Num 0) (add_gate ''PauliX'' (Num 0) [0, 1, 1, 0] (GateCache_new 0 0))
   \<and> fst (get_gate_host ''PauliX'' (Num 0)
            (add_gate ''PauliX'' (Num 0) [0, 1, 1, 0] (GateCache_new 0 0))) = [0, 1, 1, 0]
   \<and> \<not> gateExists ''PauliX'' (Num 0) (GateCache_new 0 0)"
  using add_gate_then_lookup [of "''PauliX''" 0 "[0, 1, 1, 0]" "GateCache_new 0 0"
      "''PauliX''" "Num 0" "GateCache_new 0 0"]
  by (simp add: GateCache_new_def)

section \<open>Observables\<close>



lemma insert_wires_eq:
  "insert_wires ws S =
     (if distinct ws \<and> set ws \<inter> S = {} then Inr (S \<union> set ws)
      else Inl (LightningException ''All wires in observables must be disjoint.''))"
  by (induction ws arbitrary: S) auto

lemma collect_wires_eq:
  "collect_wires obs S =
     (if distinct (concat (map getWires obs)) \<and> set (concat (map getWires obs)) \<inter> S = {}
      then Inr (S \<union> (\<Union>ob \<in> set obs. set (getWires ob)))
      else Inl (LightningException ''All wires in observables must be disjoint.''))"
proof (induction obs arbitrary: S)
  case Nil
  show ?case by simp
next
  case (Cons ob obs)
  show ?case
    by (simp add: insert_wires_eq Cons.IH) blast
qed

lemma TensorProdObsGPU_create_eq:
  "TensorProdObsGPU_create obs =
     (if distinct (concat (map getWires obs))
      then Inr (TensorProdObs obs (sorted_list_of_set (\<Union>ob \<in> set obs. set (getWires ob))))
      else Inl (LightningException ''All wires in observables must be disjoint.''))"
  by (simp add: TensorProdObsGPU_create_def collect_wires_eq)

lemma shared_element_not_distinct:
  assumes "i < j" "j < length xss" "set (xss ! i) \<inter> set (xss ! j) \<noteq> {}"
  shows "\<not> distinct (concat xss)"
proof -
  from assms obtain w where w: "w \<in> set (xss ! i)" "w \<in> set (xss ! j)" by blast
  have split: "xss = take j xss @ xss ! j # drop (Suc j) xss"
    using assms(2) by (simp add: id_take_nth_drop)
  have "xss ! i \<in> set (take j xss)"
    using assms(1,2) by (metis in_set_conv_nth length_take min.absorb2 nth_take less_imp_le_nat)
  then have "w \<in> set (concat (take j xss))" using w(1) by auto
  then have "\<not> distinct (concat (take j xss) @ xss ! j @ concat (drop (Suc j) xss))"
    using w(2) by auto
  then show ?thesis using split by (metis concat.simps(2) concat_append)
qed

text \<open>
  Claim C7, as stated, fails: the constructor also aborts when one member lists a wire
  twice, although no two members share a wire.
\<close>

theorem tensor_single_member_repeated_wire:
  "TensorProdObsGPU_create [NamedObs ''PauliZ'' [0, 0] []] =
     Inl (LightningException ''All wires in observables must be disjoint.'')"
  by (simp add: TensorProdObsGPU_create_def)

text \<open>
  Claim C7, amended. The construction of a tensor product fails with the configuration
  error if and only if some wire occurs twice in the members' wire lists taken
  together, which is the case whenever two members share a wire; when no wire occurs
  twice the construction succeeds and \<open>getWires\<close> of the result is the sorted,
  duplicate-free list of the union of the members' wires.
\<close>

theorem tensor_create_disjoint_wires:
  "TensorProdObsGPU_create obs =
     (if distinct (concat (map getWires obs))
      then Inr (TensorProdObs obs (sorted_list_of_set (\<Union>ob \<in> set obs. set (getWires ob))))
      else Inl (LightningException ''All wires in observables must be disjoint.''))
   \<and> (i < j \<and> j < length obs \<and> set (getWires (obs ! i)) \<inter> set (getWires (obs ! j)) \<noteq> {}
        \<longrightarrow> TensorProdObsGPU_create obs =
              Inl (LightningException ''All wires in observables must be disjoint.''))
   \<and> (distinct (concat (map getWires obs)) \<longrightarrow>
        (\<exists>t. TensorProdObsGPU_create obs = Inr t \<and> sorted (getWires t) \<and> distinct (getWires t)
             \<and> set (getWires t) = (\<Union>ob \<in> set obs. set (getWires ob))))"
proof (intro conjI impI)
  show "TensorProdObsGPU_create obs =
     (if distinct (concat (map getWires obs))
      then Inr (TensorProdObs obs (sorted_list_of_set (\<Union>ob \<in> set obs. set (getWires ob))))
      else Inl (LightningException ''All wires in observables must be disjoint.''))"
    by (rule TensorProdObsGPU_create_eq)
next
  assume "i < j \<and> j < length obs \<and> set (getWires (obs ! i)) \<inter> set (getWires (obs ! j)) \<noteq> {}"
  then have "\<not> distinct (concat (map getWires obs))"
    using shared_element_not_distinct [of i j "map getWires obs"] by simp
  then show "TensorProdObsGPU_create obs =
              Inl (LightningException ''All wires in observables must be disjoint.'')"
    by (simp add: TensorProdObsGPU_create_eq)
next
  assume d: "distinct (concat (map getWires obs))"
  have fin: "finite (\<Union>ob \<in> set obs. set (getWires ob))" by simp
  show "\<exists>t. TensorProdObsGPU_create obs = Inr t \<and> sorted (getWires t) \<and> distinct (getWires t)
             \<and> set (getWires t) = (\<Union>ob \<in> set obs. set (getWires ob))"
    using d fin by (simp add: TensorProdObsGPU_create_eq)
qed

theorem tensor_create_disjoint_wires_witness:
  "TensorProdObsGPU_create [NamedObs ''PauliZ'' [1] [], NamedObs ''PauliX'' [0] []] =
     Inr (TensorProdObs [NamedObs ''PauliZ'' [1] [], NamedObs ''PauliX'' [0] []] [0, 1])
   \<and> TensorProdObsGPU_create [NamedObs ''PauliZ'' [1] [], NamedObs ''PauliX'' [1] []] =
     Inl (LightningException ''All wires in observables must be disjoint.'')"
  using tensor_create_disjoint_wires [of "[NamedObs ''PauliZ'' [1] [], NamedObs ''PauliX'' [0] []]" 0 1]
    tensor_create_disjoint_wires [of "[NamedObs ''PauliZ'' [1] [], NamedObs ''PauliX'' [1] []]" 0 1]
  by simp

section \<open>The generator registry\<close>

lemma registries_have_the_same_keys: "dom generator_map = dom scaling_factors"
  by (simp add: generator_map_def generator_table_def scaling_factors_def scaling_table_def
      dom_map_of_conv_image_fst insert_commute)

text \<open>
  Claim C9. For every gate name that is not a key of the generator registry,
  \<open>applyGenerator\<close> fails: the lookup \<open>generator_map.at(op_name)\<close> throws
  \<open>std::out_of_range\<close>, which is the failure for an unsupported operation. When the sweep
  reaches a trainable parametric operation with such a name, the sweep fails with that
  exception and the buffer is as it was.
\<close>

theorem applyGenerator_unregistered:
  "opName \<notin> dom generator_map \<Longrightarrow>
     applyGenerator B sv opName wires adj = Inl Std_out_of_range
     \<and> (op_name op = opName \<and> st_current_param_idx st = hd (st_tp_it st) \<longrightarrow>
          param_branch B tp_size op st = Inl (Std_out_of_range, st_jac st))"
  by (cases "generator_map opName") (auto simp: applyGenerator_def param_branch_def)

theorem applyGenerator_unregistered_witness:
  "''Rot'' \<notin> dom generator_map
   \<and> applyGenerator qubit_backend (sv_from_data [1, 0] dev0) ''Rot'' [0] False =
       Inl Std_out_of_range"
  using applyGenerator_unregistered [of "''Rot''" qubit_backend "sv_from_data [1, 0] dev0" "[0]" False]
  by (simp add: generator_map_def generator_table_def dom_map_of_conv_image_fst)

section \<open>The sweep: facts about the loop\<close>

lemma innerProdC_conjugate_linear:
  "innerProdC (map ((*) a) u) v = cnj a * innerProdC u v"
  "length u = length u' \<Longrightarrow>
     innerProdC (map2 (+) u u') v = innerProdC u v + innerProdC u' v"
proof -
  show "innerProdC (map ((*) a) u) v = cnj a * innerProdC u v"
    unfolding innerProdC_def
  proof (induction u arbitrary: v)
    case Nil
    then show ?case by simp
  next
    case (Cons x u)
    then show ?case by (cases v) (simp_all add: algebra_simps)
  qed
  show "length u = length u' \<Longrightarrow>
     innerProdC (map2 (+) u u') v = innerProdC u v + innerProdC u' v"
    unfolding innerProdC_def
  proof (induction u u' arbitrary: v rule: list_induct2)
    case Nil
    then show ?case by simp
  next
    case (Cons x xs y ys)
    then show ?case by (cases v) (simp_all add: algebra_simps)
  qed
qed

lemma jac_index_unat:
  assumes "i * unat tp + unat col < 2 ^ 64" "0 < unat tp"
  shows "unat ((of_nat i :: size_t) * tp + col) = i * unat tp + unat col"
proof -
  have "i \<le> i * unat tp" using assms(2) by simp
  then have i: "i < 2 ^ 64" using assms(1) by linarith
  have ui: "unat (of_nat i :: size_t) = i"
    using i by (simp add: unat_of_nat)
  have "unat (of_nat i :: size_t) * unat tp < 2 ^ LENGTH(64)"
    using assms(1) ui by simp
  then have m: "unat ((of_nat i :: size_t) * tp) = i * unat tp"
    using ui by (simp add: unat_mult_lem [THEN iffD1])
  have "unat ((of_nat i :: size_t) * tp) + unat col < 2 ^ LENGTH(64)"
    using assms(1) m by simp
  then show ?thesis
    using m by (simp add: unat_add_lem [THEN iffD1])
qed

lemma updateJacobian_loop_ok:
  assumes "\<forall>h \<in> set hs. device_id (sv_dev_tag h) = device_id (sv_dev_tag mu)"
    and "(k + length hs) * unat tp \<le> length jac"
    and "length jac < 2 ^ 64"
    and "unat col < unat tp"
  shows "\<exists>jac'. updateJacobian_loop hs k mu jac c col tp = Inr jac' \<and> length jac' = length jac \<and>
           (\<forall>i < length hs. jac' ! ((k + i) * unat tp + unat col) =
                - 2 * c * Im (innerProdC (sv_data (hs ! i)) (sv_data mu))) \<and>
           (\<forall>m. (\<forall>i < length hs. m \<noteq> (k + i) * unat tp + unat col) \<longrightarrow> jac' ! m = jac ! m)"
  using assms
proof (induction hs arbitrary: k jac)
  case Nil
  then show ?case by simp
next
  case (Cons h hs)
  let ?idx = "k * unat tp + unat col"
  let ?v = "- 2 * c * Im (innerProdC (sv_data h) (sv_data mu))"
  have tp: "0 < unat tp" using Cons.prems(4) by linarith
  have "k * unat tp + unat tp \<le> (k + length (h # hs)) * unat tp"
    by (simp add: algebra_simps)
  then have idx_lt: "?idx < length jac"
    using Cons.prems(2,4) by linarith
  then have idx64: "?idx < 2 ^ 64" using Cons.prems(3) by linarith
  have widx: "unat ((of_nat k :: size_t) * tp + col) = ?idx"
    using jac_index_unat [OF idx64 tp] .
  have dev: "device_id (sv_dev_tag h) = device_id (sv_dev_tag mu)"
    using Cons.prems(1) by simp
  have step: "updateJacobian h mu jac c (of_nat k) col tp = Inr (jac[?idx := ?v])"
    using dev idx_lt widx by (simp add: updateJacobian_def)
  have p2: "(Suc k + length hs) * unat tp \<le> length (jac[?idx := ?v])"
    using Cons.prems(2) by simp
  from Cons.IH [of "Suc k" "jac[?idx := ?v]" ] Cons.prems p2
  obtain jac' where r: "updateJacobian_loop hs (Suc k) mu (jac[?idx := ?v]) c col tp = Inr jac'"
    and len: "length jac' = length jac"
    and wr: "\<forall>i < length hs. jac' ! ((Suc k + i) * unat tp + unat col) =
                - 2 * c * Im (innerProdC (sv_data (hs ! i)) (sv_data mu))"
    and un: "\<forall>m. (\<forall>i < length hs. m \<noteq> (Suc k + i) * unat tp + unat col) \<longrightarrow>
                jac' ! m = (jac[?idx := ?v]) ! m"
    by auto
  have run: "updateJacobian_loop (h # hs) k mu jac c col tp = Inr jac'"
    using step r by simp
  have first: "jac' ! ?idx = ?v"
  proof -
    have "\<forall>i < length hs. ?idx \<noteq> (Suc k + i) * unat tp + unat col"
      using tp by (auto simp: algebra_simps)
    then have "jac' ! ?idx = (jac[?idx := ?v]) ! ?idx" using un by blast
    then show ?thesis using idx_lt by simp
  qed
  have written: "\<forall>i < length (h # hs). jac' ! ((k + i) * unat tp + unat col) =
                - 2 * c * Im (innerProdC (sv_data ((h # hs) ! i)) (sv_data mu))"
  proof (intro allI impI)
    fix i assume "i < length (h # hs)"
    then show "jac' ! ((k + i) * unat tp + unat col) =
                - 2 * c * Im (innerProdC (sv_data ((h # hs) ! i)) (sv_data mu))"
      using first wr by (cases i) auto
  qed
  have untouched: "\<forall>m. (\<forall>i < length (h # hs). m \<noteq> (k + i) * unat tp + unat col) \<longrightarrow>
                jac' ! m = jac ! m"
  proof (intro allI impI)
    fix m assume a: "\<forall>i < length (h # hs). m \<noteq> (k + i) * unat tp + unat col"
    then have m0: "m \<noteq> ?idx" by force
    have "\<forall>i < length hs. m \<noteq> (Suc k + i) * unat tp + unat col"
    proof (intro allI impI)
      fix i assume "i < length hs"
      then have "Suc i < length (h # hs)" by simp
      then have "m \<noteq> (k + Suc i) * unat tp + unat col" using a by blast
      then show "m \<noteq> (Suc k + i) * unat tp + unat col" by simp
    qed
    then have "jac' ! m = (jac[?idx := ?v]) ! m" using un by blast
    then show "jac' ! m = jac ! m" using m0 by simp
  qed
  show ?case using run len written untouched by blast
qed

lemma updateJacobian_loop_length:
  "updateJacobian_loop hs k mu jac c col tp = Inr jac' \<Longrightarrow> length jac' = length jac"
proof (induction hs arbitrary: k jac)
  case Nil
  then show ?case by simp
next
  case (Cons h hs)
  then show ?case
    by (auto simp: updateJacobian_def split: sum.splits if_splits)
qed

lemma generator_keeps_device:
  assumes "generator_map opName = Some g" "g B sv wires adj = Inr sv'"
  shows "sv_dev_tag sv' = sv_dev_tag sv"
proof -
  have "(opName, g) \<in> set generator_table"
    using assms(1) by (simp add: generator_map_def map_of_SomeD)
  then show ?thesis
    using assms(2)
    by (auto simp: generator_table_def applyMethod_def applyOperation_def
        applyGeneratorRX_GPU_def applyGeneratorRY_GPU_def applyGeneratorRZ_GPU_def
        applyGeneratorIsingXX_GPU_def applyGeneratorIsingYY_GPU_def applyGeneratorIsingZZ_GPU_def
        applyGeneratorCRX_GPU_def applyGeneratorCRY_GPU_def applyGeneratorCRZ_GPU_def
        applyGeneratorPhaseShift_GPU_def applyGeneratorControlledPhaseShift_GPU_def
        applyGeneratorSingleExcitation_GPU_def applyGeneratorSingleExcitationMinus_GPU_def
        applyGeneratorSingleExcitationPlus_GPU_def applyGeneratorDoubleExcitation_GPU_def
        applyGeneratorDoubleExcitationMinus_GPU_def applyGeneratorDoubleExcitationPlus_GPU_def
        applyGeneratorMultiRZ_GPU_def split: if_splits)
qed

lemma applyGenerator_keeps_device:
  "applyGenerator B sv opName wires adj = Inr (sv', c) \<Longrightarrow> sv_dev_tag sv' = sv_dev_tag sv"
  by (auto simp: applyGenerator_def split: option.splits sum.splits dest: generator_keeps_device)

lemma fold_keeps_device:
  "(\<And>x s. x \<in> set xs \<Longrightarrow> sv_dev_tag (f x s) = sv_dev_tag s) \<Longrightarrow>
     sv_dev_tag (fold f xs sv) = sv_dev_tag sv"
  by (induction xs arbitrary: sv) auto

lemma applyInPlace_keeps_device: "sv_dev_tag (applyInPlace B ob sv) = sv_dev_tag sv"
proof (induction B ob sv rule: applyInPlace.induct)
  case (1 B obs_name wires params sv)
  then show ?case by (simp add: applyOperation_def)
next
  case (2 B matrix wires sv)
  then show ?case by (simp add: applyOperation_std_def)
next
  case (3 B obs all_wires sv)
  then show ?case by (simp add: fold_keeps_device)
next
  case (4 B coeffs obs sv)
  then show ?case by (simp add: updateData_def Let_def)
qed

lemma applyOperations_keeps_device:
  "sv_dev_tag (applyOperations B sv ops adj) = sv_dev_tag sv"
  by (simp add: applyOperations_def fold_keeps_device applyOperation_def)

lemma sweep_init_inv:
  "sweep_inv dev_tag (length obs) (length jac)
     (sweep_init B ref_data jac obs ops trainableParams apply_operations dev_tag)"
  by (auto simp: sweep_inv_def sweep_init_def Let_def applyObservables_def sv_fresh_def
      sv_from_data_def applyOperations_keeps_device applyInPlace_keeps_device updateData_def
      list_all_iff dest!: set_zip_leftD)

lemma sweep_iteration_inv:
  assumes "sweep_iteration B tp_size op st = Inr (go_on, st')" "sweep_inv dev n_obs jac_len st"
  shows "sweep_inv dev n_obs jac_len st'"
proof -
  have col: "\<And>n. n \<noteq> [] \<Longrightarrow> (of_nat (length n) :: size_t) - 1 - 1 = of_nat (length (tl n)) - 1"
    by (case_tac n) auto
  show ?thesis
    using assms
    by (auto simp: sweep_iteration_def param_branch_def sweep_inv_def Let_def updateData_def
        applyOperationAdj_def applyOperation_def applyOperationsAdj_def list_all_iff col
        split: if_splits sum.splits prod.splits
        dest: applyGenerator_keeps_device updateJacobian_loop_length)
qed

lemma sweep_arrives_inv:
  "sweep_arrives B tp_size xs st = Some st' \<Longrightarrow> sweep_inv dev n_obs jac_len st \<Longrightarrow>
     sweep_inv dev n_obs jac_len st'"
proof (induction xs arbitrary: st)
  case Nil
  then show ?case by simp
next
  case (Cons x xs)
  then show ?case
    by (auto split: sum.splits if_splits dest: sweep_iteration_inv)
qed

lemma sweep_iteration_counter:
  assumes "sweep_iteration B tp_size op st = Inr (True, st')"
  shows "st_current_param_idx st' =
           st_current_param_idx st - (if hasParams op \<and> \<not> is_state_prep op then 1 else 0)"
  using assms
  by (auto simp: sweep_iteration_def param_branch_def Let_def is_state_prep_def
      split: if_splits sum.splits prod.splits)

lemma sweep_iteration_cursor:
  assumes "sweep_iteration B tp_size op st = Inr (go_on, st')"
  shows "\<exists>k. st_tp_it st' = drop k (st_tp_it st)"
proof -
  have "st_tp_it st' = st_tp_it st \<or> st_tp_it st' = tl (st_tp_it st)"
    using assms
    by (auto simp: sweep_iteration_def param_branch_def Let_def
        split: if_splits sum.splits prod.splits)
  then show ?thesis
    by (metis drop0 drop_Suc)
qed

lemma sweep_arrives_counter:
  "sweep_arrives B tp_size xs st = Some st' \<Longrightarrow>
     st_current_param_idx st' =
       st_current_param_idx st
       - of_nat (length (filter (\<lambda>q. hasParams q \<and> \<not> is_state_prep q) xs))"
proof (induction xs arbitrary: st)
  case Nil
  then show ?case by simp
next
  case (Cons x xs)
  from Cons.prems(1) obtain st1 where it: "sweep_iteration B tp_size x st = Inr (True, st1)"
    and rest: "sweep_arrives B tp_size xs st1 = Some st'"
    by (auto split: sum.splits if_splits)
  have "st_current_param_idx st1 =
      st_current_param_idx st - (if hasParams x \<and> \<not> is_state_prep x then 1 else 0)"
    using sweep_iteration_counter [OF it] .
  moreover have "st_current_param_idx st' =
      st_current_param_idx st1
      - of_nat (length (filter (\<lambda>q. hasParams q \<and> \<not> is_state_prep q) xs))"
    using Cons.IH [OF rest] .
  ultimately show ?case by simp
qed

lemma sweep_arrives_cursor:
  "sweep_arrives B tp_size xs st = Some st' \<Longrightarrow> \<exists>k. st_tp_it st' = drop k (st_tp_it st)"
proof (induction xs arbitrary: st)
  case Nil
  then show ?case by (metis drop0 sweep_arrives.simps(1) option.inject)
next
  case (Cons x xs)
  from Cons.prems(1) obtain st1 where it: "sweep_iteration B tp_size x st = Inr (True, st1)"
    and rest: "sweep_arrives B tp_size xs st1 = Some st'"
    by (auto split: sum.splits if_splits)
  from sweep_iteration_cursor [OF it] obtain k where "st_tp_it st1 = drop k (st_tp_it st)" by blast
  moreover from Cons.IH [OF rest] obtain k' where "st_tp_it st' = drop k' (st_tp_it st1)" by blast
  ultimately show ?case by (metis drop_drop)
qed

lemma sweep_arrives_loop:
  "sweep_arrives B tp_size xs st = Some st' \<Longrightarrow>
     sweep_loop B tp_size (xs @ ys) st = sweep_loop B tp_size ys st'"
proof (induction xs arbitrary: st)
  case Nil
  then show ?case by simp
next
  case (Cons x xs)
  then show ?case by (auto split: sum.splits if_splits)
qed

lemma length_filter_split:
  "length (filter P xs) =
     length (filter (\<lambda>x. P x \<and> Q x) xs) + length (filter (\<lambda>x. P x \<and> \<not> Q x) xs)"
  by (induction xs) auto

lemma position_counter:
  assumes "sweep_arrives B tp_size (rev later)
             (sweep_init B ref_data jac obs (before @ op # later) trainableParams apply_operations dev_tag)
           = Some st"
    and "hasParams op"
  shows "st_current_param_idx st = counter_at before later"
proof -
  let ?skipped = "length (filter (\<lambda>q. hasParams q \<and> is_state_prep q) later)"
  let ?counted = "length (filter (\<lambda>q. hasParams q \<and> \<not> is_state_prep q) later)"
  have "st_current_param_idx st =
      st_current_param_idx
        (sweep_init B ref_data jac obs (before @ op # later) trainableParams apply_operations dev_tag)
      - of_nat (length (filter (\<lambda>q. hasParams q \<and> \<not> is_state_prep q) (rev later)))"
    using sweep_arrives_counter [OF assms(1)] .
  moreover have "length (filter (\<lambda>q. hasParams q \<and> \<not> is_state_prep q) (rev later)) = ?counted"
    by (simp add: rev_filter [symmetric])
  moreover have "length (filter hasParams later) = ?skipped + ?counted"
    by (rule length_filter_split)
  ultimately show ?thesis
    using assms(2) by (simp add: sweep_init_def Let_def getNumParOps_def counter_at_def)
qed

lemma counter_at_position:
  "\<forall>q \<in> set later. hasParams q \<longrightarrow> \<not> is_state_prep q \<Longrightarrow>
     counter_at before later = of_nat (length (filter hasParams before))"
proof -
  assume "\<forall>q \<in> set later. hasParams q \<longrightarrow> \<not> is_state_prep q"
  then have "filter (\<lambda>q. hasParams q \<and> is_state_prep q) later = []"
    by (auto simp: filter_empty_conv)
  then show ?thesis by (simp add: counter_at_def)
qed

lemma sweep_loop_exhausted:
  "st_tp_it st = [] \<Longrightarrow>
     sweep_loop B tp_size earlier st =
       (case dropWhile (\<lambda>q. \<not> 1 < length (op_params q) \<and> is_state_prep q) earlier of
          [] \<Rightarrow> Inr st
        | q # _ \<Rightarrow>
            if 1 < length (op_params q)
            then Inl (LightningException
                        ''The operation is not supported using the adjoint differentiation method'',
                      st_jac st)
            else Inr st)"
  by (induction earlier) (auto simp: sweep_iteration_def is_state_prep_def)

lemma cast_of_nat_minus_one: "(of_nat n :: 64 word) - 1 = word_of_int (int n - 1)"
  by simp

lemma ucast_word_of_int_64_32: "(ucast (word_of_int k :: 64 word) :: 32 word) = word_of_int k"
  by transfer (simp add: min_def)

lemma sint_word_of_int_32:
  "- (2 ^ 31) \<le> k \<Longrightarrow> k < 2 ^ 31 \<Longrightarrow> sint (word_of_int k :: 32 word) = k"
  by (simp add: sint_sbintrunc' signed_take_bit_int_eq_self)

lemma first_op_idx_small:
  assumes "n < 2 ^ 31"
  shows "first_op_idx n = int n - 1"
proof -
  have "first_op_idx n = sint (word_of_int (int n - 1) :: 32 word)"
    unfolding first_op_idx_def cast_of_nat_minus_one ucast_word_of_int_64_32 ..
  also have "\<dots> = int n - 1"
    using assms by (intro sint_word_of_int_32) auto
  finally show ?thesis .
qed

lemma visited_ops_rev: "length ops < 2 ^ 31 \<Longrightarrow> visited_ops ops = rev ops"
  by (simp add: visited_ops_def first_op_idx_small)

lemma adjointJacobian_from_arrival:
  assumes "sweep_arrives B (of_nat (length trainableParams)) (rev later)
             (sweep_init B ref_data jac obs (before @ op # later) trainableParams apply_operations dev_tag)
           = Some st"
    and "trainableParams \<noteq> []" and "length (before @ op # later) < 2 ^ 31"
  shows "adjointJacobian B ref_data jac obs (before @ op # later) trainableParams apply_operations dev_tag =
           (case sweep_loop B (of_nat (length trainableParams)) (op # rev before) st of
              Inl ej \<Rightarrow> Inl ej
            | Inr st'' \<Rightarrow> Inr (st_jac st''))"
proof -
  have "visited_ops (before @ op # later) = rev later @ (op # rev before)"
    using assms(3) by (simp add: visited_ops_rev)
  then show ?thesis
    using assms(2) sweep_arrives_loop [OF assms(1), of "op # rev before"]
    by (simp add: adjointJacobian_def)
qed

lemma sweep_loop_param_free_prefix:
  assumes "\<forall>q \<in> set xs. op_params q = []" "st_tp_it st \<noteq> []"
  shows "\<exists>st'. sweep_loop B tp_size (xs @ ys) st = sweep_loop B tp_size ys st'
           \<and> st_jac st' = st_jac st \<and> st_tp_it st' = st_tp_it st"
  using assms
proof (induction xs arbitrary: st)
  case Nil
  then show ?case by auto
next
  case (Cons x xs)
  have x: "op_params x = []" using Cons.prems(1) by simp
  have "\<exists>st1. sweep_iteration B tp_size x st = Inr (True, st1)
          \<and> st_jac st1 = st_jac st \<and> st_tp_it st1 = st_tp_it st"
    using x Cons.prems(2) by (simp add: sweep_iteration_def hasParams_def Let_def)
  then obtain st1 where it: "sweep_iteration B tp_size x st = Inr (True, st1)"
    and j: "st_jac st1 = st_jac st" and t: "st_tp_it st1 = st_tp_it st"
    by blast
  from Cons.IH [of st1] Cons.prems t
  obtain st' where "sweep_loop B tp_size (xs @ ys) st1 = sweep_loop B tp_size ys st'"
    "st_jac st' = st_jac st1" "st_tp_it st' = st_tp_it st1" by auto
  then show ?case using it j t by auto
qed

section \<open>The sweep: preconditions\<close>

text \<open>
  Claim C3. For every input whose trainable-parameter list is empty, \<open>adjointJacobian\<close>
  fails with the exception for the invalid argument ("No trainable parameters
  provided."), and the caller's output buffer is unchanged.
\<close>

theorem empty_trainable_params_rejected:
  "adjointJacobian B ref_data jac obs ops [] apply_operations dev_tag =
     Inl (LightningException ''No trainable parameters provided.'', jac)"
  by (simp add: adjointJacobian_def)

theorem empty_trainable_params_rejected_witness:
  "adjointJacobian qubit_backend [1, 0] [5, 6] [NamedObs ''PauliZ'' [0] []]
     [gate_op ''RX'' [0] [0]] [] False dev0 =
     Inl (LightningException ''No trainable parameters provided.'', [5, 6])"
  using empty_trainable_params_rejected [of qubit_backend "[1, 0]" "[5, 6]"
      "[NamedObs ''PauliZ'' [0] []]" "[gate_op ''RX'' [0] [0]]" False dev0]
  by simp

section \<open>The sweep: the step on a trainable operation\<close>

text \<open>
  Claim C2, as stated, fails. The loop skips a state preparation before it lowers its
  counter of parametric operations, while \<open>getNumParOps\<close> counts every operation with
  a parameter. In the run below, on the tape \<open>RX(0), BasisState(1), RX(0)\<close> with the
  trainable parameters 0 and 2, the last operation is differentiated and the second
  column written; the first operation has a parameter and its forward-order position 0
  is then the pending trainable index, but the counter stands at 1: no generator is
  applied and the first column keeps the value 7 that the caller put there.
\<close>

theorem trainable_op_missed_after_state_prep:
  "adjointJacobian qubit_backend [3 / 5, 4 * \<i> / 5] [7, 7] [NamedObs ''PauliZ'' [0] []]
     [gate_op ''RX'' [0] [0], gate_op ''BasisState'' [1] [0], gate_op ''RX'' [0] [0]]
     [0, 2] False dev0 =
     Inr [7, 24 / 25]"
  by (simp add: sweep_defs qubit_defs)

text \<open>
  Claim C2, amended. Let the reverse walk of \<open>adjointJacobian\<close> on the tape
  \<open>before @ op # later\<close> arrive at \<open>op\<close>, an operation with exactly one parameter that
  is not a state preparation, whose generator \<open>g\<close> and coefficient \<open>c\<close> are registered
  and whose generator action succeeds (the generators of the controlled gates act on
  \<open>wires.back()\<close> and need a wire), and let the pending
  trainable index \<open>t\<close> be the value of the engine's counter at \<open>op\<close>: the number of
  parametric operations before \<open>op\<close> plus the number of parametric state preparations
  after it. When no parametric state preparation comes after \<open>op\<close>, this value is the
  forward-order position of \<open>op\<close> among the parametric operations. Then the iteration
  applies the registered generator \<open>g\<close> of the operation to \<open>mu\<close>, which holds a copy of
  \<open>lambda\<close>, with the adjoint flag \<open>\<not> inverse\<close>, and for every observable \<open>i\<close> it writes
  \<open>jac[i * tp_size + col] = -2 * c' * Im \<langle>H_lambda[i] | mu\<rangle>\<close> into the row-major buffer,
  where \<open>c'\<close> is the registered coefficient \<open>c\<close>, negated for an inverted operation, \<open>col\<close>
  is the column counter \<open>trainableParamNumber\<close>, which is the position of \<open>t\<close> in the
  trainable list, and the inner product is conjugate-linear in its first argument. All
  other entries are left as they are; both cursors and the parametric counter go down by
  one, and \<open>lambda\<close> and the bra states are undone by the operation. The buffer is taken to
  have room for one row per observable; like every \<open>std::vector\<close>, the buffer and the
  trainable list have fewer than \<open>2 ^ 64\<close> elements. The state at which the walk arrives is the
  state of the run: for a non-empty trainable list and a tape of fewer than \<open>2 ^ 31\<close>
  operations, \<open>adjointJacobian\<close> returns what the loop returns when it goes on from this
  state with \<open>op\<close>.
\<close>

theorem generator_step_writes_column:
  assumes arrives: "sweep_arrives B (of_nat (length trainableParams)) (rev later)
             (sweep_init B ref_data jac obs (before @ op # later) trainableParams apply_operations dev_tag)
           = Some st"
    and one_param: "length (op_params op) = 1" and no_prep: "\<not> is_state_prep op"
    and pending: "st_tp_it st = t # rest"
    and counter: "counter_at before later = t"
    and registered: "generator_map (op_name op) = Some g" "scaling_factors (op_name op) = Some c"
    and generator:
      "g B (updateData (st_mu st) (st_lambda st)) (op_wires op) (\<not> op_inverse op) = Inr mu'"
    and room: "length obs * length trainableParams \<le> length jac" "length jac < 2 ^ 64"
      "length trainableParams < 2 ^ 64"
  shows "(\<exists>jac'.
      sweep_iteration B (of_nat (length trainableParams)) op st =
        Inr (True, st\<lparr>st_mu := mu', st_lambda := applyOperationAdj B op (st_lambda st),
                      st_jac := jac',
                      st_trainableParamNumber := st_trainableParamNumber st - 1,
                      st_tp_it := rest, st_current_param_idx := t - 1,
                      st_H_lambda := applyOperationsAdj B op (st_H_lambda st)\<rparr>)
      \<and> length jac' = length jac
      \<and> unat (st_trainableParamNumber st) = length rest
      \<and> trainableParams ! length rest = t
      \<and> (\<forall>i < length obs.
            jac' ! (i * length trainableParams + length rest) =
              - 2 * (c * (if op_inverse op then - 1 else 1)) *
                Im (innerProdC (sv_data (st_H_lambda st ! i)) (sv_data mu')))
      \<and> (\<forall>m. (\<forall>i < length obs. m \<noteq> i * length trainableParams + length rest) \<longrightarrow>
               jac' ! m = st_jac st ! m))
    \<and> st_current_param_idx st = counter_at before later
    \<and> ((\<forall>q \<in> set later. hasParams q \<longrightarrow> \<not> is_state_prep q) \<longrightarrow>
         counter_at before later = of_nat (length (filter hasParams before)))
    \<and> (trainableParams \<noteq> [] \<and> length (before @ op # later) < 2 ^ 31 \<longrightarrow>
         adjointJacobian B ref_data jac obs (before @ op # later) trainableParams
             apply_operations dev_tag =
           (case sweep_loop B (of_nat (length trainableParams)) (op # rev before) st of
              Inl ej \<Rightarrow> Inl ej
            | Inr st'' \<Rightarrow> Inr (st_jac st'')))
    \<and> innerProdC (map ((*) a) u) v = cnj a * innerProdC u v
    \<and> (length u = length u' \<longrightarrow>
         innerProdC (map2 (+) u u') v = innerProdC u v + innerProdC u' v)"
proof -
  let ?tp = "of_nat (length trainableParams) :: size_t"
  let ?c = "c * (if op_inverse op then - 1 else 1)"
  have inv: "sweep_inv dev_tag (length obs) (length jac) st"
    using sweep_arrives_inv [OF arrives sweep_init_inv] .
  have np: "op_params op \<noteq> []" using one_param by auto
  then have hp: "hasParams op" by (simp add: hasParams_def)
  have cur0: "st_current_param_idx st = counter_at before later"
    using position_counter [OF arrives hp] .
  then have cur: "st_current_param_idx st = t" using counter by simp
  have utp: "unat ?tp = length trainableParams"
    using room(3) by (simp add: unat_of_nat)
  obtain k where k: "st_tp_it st = drop k (rev trainableParams)"
    using sweep_arrives_cursor [OF arrives] by (auto simp: sweep_init_def Let_def)
  have "length (st_tp_it st) \<le> length trainableParams" using k by simp
  then have lr: "Suc (length rest) \<le> length trainableParams" using pending by simp
  have "st_trainableParamNumber st = of_nat (length rest)"
    using inv pending by (simp add: sweep_inv_def)
  then have ucol: "unat (st_trainableParamNumber st) = length rest"
    using lr room(3) by (simp add: unat_of_nat)
  have "rev trainableParams = take k (rev trainableParams) @ t # rest"
    using k pending by (metis append_take_drop_id)
  then have "trainableParams = rev rest @ t # rev (take k (rev trainableParams))"
    by (metis rev_append rev.simps(2) rev_rev_ident append.assoc append_Cons append_Nil)
  then have tcol: "trainableParams ! length rest = t"
    by (metis length_rev nth_append_length)
  have dev_mu': "sv_dev_tag mu' = sv_dev_tag (st_mu st)"
    using generator_keeps_device [OF registered(1) generator] by (simp add: updateData_def)
  have devs: "\<forall>h \<in> set (st_H_lambda st). device_id (sv_dev_tag h) = device_id (sv_dev_tag mu')"
    using inv dev_mu' by (simp add: sweep_inv_def list_all_iff)
  have lenH: "length (st_H_lambda st) = length obs" and lenJ: "length (st_jac st) = length jac"
    using inv by (simp_all add: sweep_inv_def)
  have bound: "(0 + length (st_H_lambda st)) * unat ?tp \<le> length (st_jac st)"
    using room(1) utp lenH lenJ by simp
  have j64: "length (st_jac st) < 2 ^ 64" using room(2) lenJ by simp
  have colt: "unat (st_trainableParamNumber st) < unat ?tp" using ucol utp lr by simp
  from updateJacobian_loop_ok [OF devs bound j64 colt, of ?c]
  obtain jac' where
    run: "updateJacobian_loop (st_H_lambda st) 0 mu' (st_jac st) ?c
            (st_trainableParamNumber st) ?tp = Inr jac'"
    and len: "length jac' = length (st_jac st)"
    and wr: "\<forall>i < length (st_H_lambda st).
               jac' ! ((0 + i) * unat ?tp + unat (st_trainableParamNumber st)) =
                 - 2 * ?c * Im (innerProdC (sv_data (st_H_lambda st ! i)) (sv_data mu'))"
    and un: "\<forall>m. (\<forall>i < length (st_H_lambda st).
                 m \<noteq> (0 + i) * unat ?tp + unat (st_trainableParamNumber st)) \<longrightarrow>
               jac' ! m = st_jac st ! m"
    by blast
  have gen: "applyGenerator B (updateData (st_mu st) (st_lambda st)) (op_name op) (op_wires op)
               (\<not> op_inverse op) = Inr (mu', c)"
    using registered generator by (simp add: applyGenerator_def)
  have it: "sweep_iteration B ?tp op st =
        Inr (True, st\<lparr>st_mu := mu', st_lambda := applyOperationAdj B op (st_lambda st),
                      st_jac := jac',
                      st_trainableParamNumber := st_trainableParamNumber st - 1,
                      st_tp_it := rest, st_current_param_idx := t - 1,
                      st_H_lambda := applyOperationsAdj B op (st_H_lambda st)\<rparr>)"
    using one_param no_prep pending cur np gen run
    by (simp add: sweep_iteration_def param_branch_def hasParams_def is_state_prep_def Let_def)
  have step: "\<exists>jac'.
      sweep_iteration B ?tp op st =
        Inr (True, st\<lparr>st_mu := mu', st_lambda := applyOperationAdj B op (st_lambda st),
                      st_jac := jac',
                      st_trainableParamNumber := st_trainableParamNumber st - 1,
                      st_tp_it := rest, st_current_param_idx := t - 1,
                      st_H_lambda := applyOperationsAdj B op (st_H_lambda st)\<rparr>)
      \<and> length jac' = length jac
      \<and> unat (st_trainableParamNumber st) = length rest
      \<and> trainableParams ! length rest = t
      \<and> (\<forall>i < length obs.
            jac' ! (i * length trainableParams + length rest) =
              - 2 * ?c * Im (innerProdC (sv_data (st_H_lambda st ! i)) (sv_data mu')))
      \<and> (\<forall>m. (\<forall>i < length obs. m \<noteq> i * length trainableParams + length rest) \<longrightarrow>
               jac' ! m = st_jac st ! m)"
    using it len wr un lenH lenJ utp ucol tcol by (intro exI [of _ jac']) simp
  have entry: "trainableParams \<noteq> [] \<and> length (before @ op # later) < 2 ^ 31 \<longrightarrow>
         adjointJacobian B ref_data jac obs (before @ op # later) trainableParams
             apply_operations dev_tag =
           (case sweep_loop B ?tp (op # rev before) st of
              Inl ej \<Rightarrow> Inl ej
            | Inr st'' \<Rightarrow> Inr (st_jac st''))"
    using adjointJacobian_from_arrival [OF arrives] by blast
  show ?thesis
    using step cur0 counter_at_position [of later before] entry innerProdC_conjugate_linear
    by blast
qed

theorem generator_step_writes_column_witness:
  "\<exists>st'. sweep_iteration qubit_backend 2 (gate_op ''RX'' [0] [0]) run_init = Inr (True, st')
      \<and> st_mu st' = sv_from_data [4 * \<i> / 5, 3 / 5] dev0
      \<and> st_jac st' ! 1 = 24 / 25 \<and> st_jac st' ! 3 = 7 / 25
      \<and> st_jac st' ! 0 = 0 \<and> st_jac st' ! 2 = 0"
proof -
  let ?op = "gate_op ''RX'' [0] [0]"
  let ?mu' = "sv_from_data [4 * \<i> / 5, 3 / 5] dev0"
  let ?obs = "[NamedObs ''PauliZ'' [0] [], NamedObs ''PauliY'' [0] []]"
  have h1: "sweep_arrives qubit_backend (of_nat (length [0, 1 :: size_t])) (rev [])
      (sweep_init qubit_backend [3 / 5, 4 * \<i> / 5] [0, 0, 0, 0] ?obs
         ([?op] @ ?op # []) [0, 1] False dev0) = Some run_init"
    by (simp add: run_init_def)
  have h3: "length (op_params ?op) = 1" by (simp add: gate_op_def)
  have h4: "\<not> is_state_prep ?op" by (simp add: gate_op_def is_state_prep_def)
  have h5: "st_tp_it run_init = 1 # [0]" by (simp add: run_init_eq)
  have h6: "counter_at [?op] [] = 1"
    by (simp add: counter_at_def gate_op_def hasParams_def)
  have h7: "generator_map (op_name ?op) = Some applyGeneratorRX_GPU"
    by (simp add: gate_op_def generator_map_def generator_table_def)
  have h8: "scaling_factors (op_name ?op) = Some (- 0.5)"
    by (simp add: gate_op_def scaling_factors_def scaling_table_def)
  have h9: "applyGeneratorRX_GPU qubit_backend (updateData (st_mu run_init) (st_lambda run_init))
              (op_wires ?op) (\<not> op_inverse ?op) = Inr ?mu'"
    by (simp add: run_init_eq applyGeneratorRX_GPU_def applyMethod_def updateData_def
        sv_from_data_def sv_fresh_def qubit_defs)
  have h10: "length ?obs * length [0, 1 :: size_t] \<le> length [0, 0, 0, 0 :: fp_t]" by simp
  have h11: "length [0, 0, 0, 0 :: fp_t] < 2 ^ 64" by simp
  have h12: "length [0, 1 :: size_t] < 2 ^ 64" by simp
  from generator_step_writes_column [OF h1 h3 h4 h5 h6 h7 h8 h9 h10 h11 h12]
  obtain jac' where
    it: "sweep_iteration qubit_backend (of_nat (length [0, 1 :: size_t])) ?op run_init =
        Inr (True, run_init\<lparr>st_mu := ?mu',
                      st_lambda := applyOperationAdj qubit_backend ?op (st_lambda run_init),
                      st_jac := jac',
                      st_trainableParamNumber := st_trainableParamNumber run_init - 1,
                      st_tp_it := [0], st_current_param_idx := 1 - 1,
                      st_H_lambda := applyOperationsAdj qubit_backend ?op (st_H_lambda run_init)\<rparr>)"
    and wr: "\<forall>i < length ?obs.
            jac' ! (i * length [0, 1 :: size_t] + length [0 :: size_t]) =
              - 2 * (- 0.5 * (if op_inverse ?op then - 1 else 1)) *
                Im (innerProdC (sv_data (st_H_lambda run_init ! i)) (sv_data ?mu'))"
    and un: "\<forall>m. (\<forall>i < length ?obs. m \<noteq> i * length [0, 1 :: size_t] + length [0 :: size_t]) \<longrightarrow>
               jac' ! m = st_jac run_init ! m"
    by blast
  have j1: "jac' ! 1 = 24 / 25"
    using wr [rule_format, of 0]
    by (simp add: run_init_eq gate_op_def innerProdC_def sv_from_data_def)
  have j3: "jac' ! 3 = 7 / 25"
    using wr [rule_format, of 1]
    by (simp add: run_init_eq gate_op_def innerProdC_def sv_from_data_def numeral_3_eq_3)
  have "\<forall>i < length ?obs. (0::nat) \<noteq> i * length [0, 1 :: size_t] + length [0 :: size_t]"
    by simp
  then have "jac' ! 0 = st_jac run_init ! 0" using un by blast
  then have j0: "jac' ! 0 = 0" by (simp add: run_init_eq)
  have "\<forall>i < length ?obs. (2::nat) \<noteq> i * length [0, 1 :: size_t] + length [0 :: size_t]"
    by simp presburger
  then have "jac' ! 2 = st_jac run_init ! 2" using un by blast
  then have j2: "jac' ! 2 = 0" by (simp add: run_init_eq)
  show ?thesis
    using it j1 j3 j0 j2 by simp
qed

section \<open>The sweep: the step on a parametric operation that is not trainable\<close>

text \<open>
  Claim C4, as stated, fails in both halves. In the first run below, on the tape
  \<open>RX(0), RX(0), BasisState(1)\<close> with the trainable parameter 0, the state preparation
  is a parametric operation whose position 2 is not the pending index; the loop skips
  it without lowering the counter, the counter never reaches 0, and the trainable first
  operation is not differentiated: the buffer keeps the value 7 of the caller. In the
  second run, on the tape \<open>QubitStateVector(1/2, 1/4), RX(0)\<close> with the trainable
  parameter 1, the cursor is exhausted after \<open>RX\<close>, but the walk does not stop there: it
  looks at the state preparation and raises the exception for the unsupported
  operation.
\<close>

theorem counter_kept_by_state_prep_and_abort_after_cursor:
  "adjointJacobian qubit_backend [3 / 5, 4 * \<i> / 5] [7] [NamedObs ''PauliZ'' [0] []]
     [gate_op ''RX'' [0] [0], gate_op ''RX'' [0] [0], gate_op ''BasisState'' [1] [0]]
     [0] False dev0 =
     Inr [7]
   \<and> adjointJacobian qubit_backend [3 / 5, 4 * \<i> / 5] [0] [NamedObs ''PauliZ'' [0] []]
     [gate_op ''QubitStateVector'' [1 / 2, 1 / 4] [0], gate_op ''RX'' [0] [0]] [1] False dev0 =
     Inl (LightningException
            ''The operation is not supported using the adjoint differentiation method'', [24 / 25])"
  by (simp add: sweep_defs qubit_defs)

text \<open>
  Claim C4, amended. Let the reverse walk on the tape \<open>before @ op # later\<close> arrive at
  \<open>op\<close>, an operation with exactly one parameter that is not a state preparation, while
  a trainable index \<open>t\<close> is pending, and let the value of the engine's counter at \<open>op\<close>
  (the number of parametric operations before \<open>op\<close> plus the number of parametric state
  preparations after it; the forward-order position of \<open>op\<close> when no parametric state
  preparation comes after it) differ from \<open>t\<close>. Then the iteration lowers the counter of
  parametric operations by one, leaves the Jacobian buffer and both trainable cursors as
  they are, and applies no generator: \<open>mu\<close> is the plain copy of \<open>lambda\<close>; \<open>lambda\<close> and
  the bra states are undone by the operation. And once the trainable cursor is
  exhausted, nothing more is undone on \<open>lambda\<close> or any bra state and nothing is
  written: the loop passes over state preparations with at most one parameter and ends
  with the state as it is at the first other operation or at the start of the tape,
  unless the operation it stops at has more than one parameter, in which case it raises
  the exception for the unsupported operation. The state at which the walk arrives is the
  state of the run: for a non-empty trainable list and a tape of fewer than \<open>2 ^ 31\<close>
  operations, \<open>adjointJacobian\<close> returns what the loop returns when it goes on from this
  state with \<open>op\<close>.
\<close>

theorem unmatched_step_and_exhausted_cursor:
  "(sweep_arrives B tp_size (rev later)
       (sweep_init B ref_data jac obs (before @ op # later) trainableParams apply_operations dev_tag)
     = Some st
    \<and> length (op_params op) = 1 \<and> \<not> is_state_prep op
    \<and> st_tp_it st = t # rest \<and> counter_at before later \<noteq> t \<longrightarrow>
    st_current_param_idx st = counter_at before later
    \<and> sweep_iteration B tp_size op st =
      Inr (True, st\<lparr>st_mu := updateData (st_mu st) (st_lambda st),
                    st_lambda := applyOperationAdj B op (st_lambda st),
                    st_current_param_idx := st_current_param_idx st - 1,
                    st_H_lambda := applyOperationsAdj B op (st_H_lambda st)\<rparr>))
   \<and> ((\<forall>q \<in> set later. hasParams q \<longrightarrow> \<not> is_state_prep q) \<longrightarrow>
         counter_at before later = of_nat (length (filter hasParams before)))
   \<and> (sweep_arrives B (of_nat (length trainableParams)) (rev later)
         (sweep_init B ref_data jac obs (before @ op # later) trainableParams apply_operations dev_tag)
        = Some st
       \<and> trainableParams \<noteq> [] \<and> length (before @ op # later) < 2 ^ 31 \<longrightarrow>
         adjointJacobian B ref_data jac obs (before @ op # later) trainableParams
             apply_operations dev_tag =
           (case sweep_loop B (of_nat (length trainableParams)) (op # rev before) st of
              Inl ej \<Rightarrow> Inl ej
            | Inr st'' \<Rightarrow> Inr (st_jac st'')))
   \<and> (st_tp_it st' = [] \<longrightarrow>
        sweep_loop B tp_size earlier st' =
          (case dropWhile (\<lambda>q. \<not> 1 < length (op_params q) \<and> is_state_prep q) earlier of
             [] \<Rightarrow> Inr st'
           | q # _ \<Rightarrow>
               if 1 < length (op_params q)
               then Inl (LightningException
                           ''The operation is not supported using the adjoint differentiation method'',
                         st_jac st')
               else Inr st'))"
proof (intro conjI impI)
  assume a: "sweep_arrives B tp_size (rev later)
       (sweep_init B ref_data jac obs (before @ op # later) trainableParams apply_operations dev_tag)
     = Some st
    \<and> length (op_params op) = 1 \<and> \<not> is_state_prep op
    \<and> st_tp_it st = t # rest \<and> counter_at before later \<noteq> t"
  then have np: "op_params op \<noteq> []" by auto
  then have hp: "hasParams op" by (simp add: hasParams_def)
  show cur: "st_current_param_idx st = counter_at before later"
    using position_counter [of B tp_size later ref_data jac obs before op trainableParams
        apply_operations dev_tag st] a hp by blast
  show "sweep_iteration B tp_size op st =
      Inr (True, st\<lparr>st_mu := updateData (st_mu st) (st_lambda st),
                    st_lambda := applyOperationAdj B op (st_lambda st),
                    st_current_param_idx := st_current_param_idx st - 1,
                    st_H_lambda := applyOperationsAdj B op (st_H_lambda st)\<rparr>)"
    using a np cur
    by (simp add: sweep_iteration_def param_branch_def hasParams_def is_state_prep_def Let_def)
next
  assume "\<forall>q \<in> set later. hasParams q \<longrightarrow> \<not> is_state_prep q"
  then show "counter_at before later = of_nat (length (filter hasParams before))"
    by (rule counter_at_position)
next
  assume "sweep_arrives B (of_nat (length trainableParams)) (rev later)
         (sweep_init B ref_data jac obs (before @ op # later) trainableParams apply_operations dev_tag)
        = Some st
       \<and> trainableParams \<noteq> [] \<and> length (before @ op # later) < 2 ^ 31"
  then show "adjointJacobian B ref_data jac obs (before @ op # later) trainableParams
             apply_operations dev_tag =
           (case sweep_loop B (of_nat (length trainableParams)) (op # rev before) st of
              Inl ej \<Rightarrow> Inl ej
            | Inr st'' \<Rightarrow> Inr (st_jac st''))"
    using adjointJacobian_from_arrival by blast
next
  assume "st_tp_it st' = []"
  then show "sweep_loop B tp_size earlier st' =
          (case dropWhile (\<lambda>q. \<not> 1 < length (op_params q) \<and> is_state_prep q) earlier of
             [] \<Rightarrow> Inr st'
           | q # _ \<Rightarrow>
               if 1 < length (op_params q)
               then Inl (LightningException
                           ''The operation is not supported using the adjoint differentiation method'',
                         st_jac st')
               else Inr st')"
    by (rule sweep_loop_exhausted)
qed

theorem unmatched_step_and_exhausted_cursor_witness:
  "st_current_param_idx sparse_init = 1
   \<and> sweep_iteration qubit_backend 1 (gate_op ''RX'' [0] [0]) sparse_init =
       Inr (True, sparse_init\<lparr>st_mu := sv_from_data [3 / 5, 4 * \<i> / 5] dev0,
                              st_current_param_idx := 0\<rparr>)
   \<and> sweep_loop qubit_backend 1 [gate_op ''BasisState'' [] [0], gate_op ''RX'' [0] [0]]
         (sparse_init\<lparr>st_tp_it := []\<rparr>) =
       Inr (sparse_init\<lparr>st_tp_it := []\<rparr>)"
  using unmatched_step_and_exhausted_cursor [of qubit_backend 1 "[]"
      "[3 / 5, 4 * \<i> / 5]" "[0]" "[NamedObs ''PauliZ'' [0] []]" "[gate_op ''RX'' [0] [0]]"
      "gate_op ''RX'' [0] [0]" "[0]" False dev0 sparse_init 0 "[]"
      "sparse_init\<lparr>st_tp_it := []\<rparr>" "[gate_op ''BasisState'' [] [0], gate_op ''RX'' [0] [0]]"]
  by (simp add: sparse_init_def sweep_defs qubit_defs is_state_prep_def counter_at_def)

section \<open>The sweep: operations with more than one parameter\<close>

text \<open>
  Claim C5, as stated, fails. The check for more than one parameter is made operation by
  operation inside the reverse loop. In the first run below the walk ends at the
  parameter-free \<open>PauliX\<close> because the trainable cursor is exhausted, the three-parameter
  \<open>Rot\<close> before it is never looked at, and the computation succeeds. In the second run
  the exception is raised after the entry for \<open>RX\<close> has been written to the buffer.
\<close>

theorem multi_param_op_unchecked_or_late:
  "adjointJacobian qubit_backend [3 / 5, 4 * \<i> / 5] [0] [NamedObs ''PauliZ'' [0] []]
     [gate_op ''Rot'' [1, 2, 3] [0], gate_op ''PauliX'' [] [0], gate_op ''RX'' [0] [0]] [1] False dev0 =
     Inr [24 / 25]
   \<and> adjointJacobian qubit_backend [3 / 5, 4 * \<i> / 5] [0] [NamedObs ''PauliZ'' [0] []]
     [gate_op ''Rot'' [1, 2, 3] [0], gate_op ''RX'' [0] [0]] [1] False dev0 =
     Inl (LightningException
            ''The operation is not supported using the adjoint differentiation method'', [24 / 25])"
  by (simp add: sweep_defs qubit_defs)

text \<open>
  Claim C5, amended. The computation fails with the exception for the unsupported
  operation at the moment the reverse walk looks at an operation with more than one
  numeric parameter, and the buffer is then as the walk has left it. In particular, for
  a non-empty trainable list and a tape in which every operation after the
  multi-parameter operation is parameter-free, \<open>adjointJacobian\<close> fails with that
  exception and the caller's buffer is unchanged.
\<close>

theorem multi_param_op_aborts_when_reached:
  "(1 < length (op_params op) \<longrightarrow>
      sweep_loop B tp_size (op # earlier) st =
        Inl (LightningException
               ''The operation is not supported using the adjoint differentiation method'',
             st_jac st))
   \<and> (trainableParams \<noteq> [] \<and> 1 < length (op_params op) \<and> (\<forall>q \<in> set later. op_params q = [])
        \<and> length (before @ op # later) < 2 ^ 31 \<longrightarrow>
      adjointJacobian B ref_data jac obs (before @ op # later) trainableParams apply_operations dev_tag =
        Inl (LightningException
               ''The operation is not supported using the adjoint differentiation method'',
             jac))"
proof (intro conjI impI)
  assume "1 < length (op_params op)"
  then show "sweep_loop B tp_size (op # earlier) st =
        Inl (LightningException
               ''The operation is not supported using the adjoint differentiation method'',
             st_jac st)"
    by (simp add: sweep_iteration_def)
next
  assume a: "trainableParams \<noteq> [] \<and> 1 < length (op_params op) \<and> (\<forall>q \<in> set later. op_params q = [])
        \<and> length (before @ op # later) < 2 ^ 31"
  let ?ops = "before @ op # later"
  let ?tp = "of_nat (length trainableParams) :: size_t"
  let ?init = "sweep_init B ref_data jac obs ?ops trainableParams apply_operations dev_tag"
  have v: "visited_ops ?ops = rev later @ (op # rev before)"
    using a by (simp add: visited_ops_rev)
  have pf: "\<forall>q \<in> set (rev later). op_params q = []" using a by simp
  have ab: "\<And>s. sweep_loop B ?tp (op # rev before) s =
        Inl (LightningException
               ''The operation is not supported using the adjoint differentiation method'',
             st_jac s)"
    using a by (simp add: sweep_iteration_def)
  have ne: "st_tp_it ?init \<noteq> []" and j: "st_jac ?init = jac"
    using a by (simp_all add: sweep_init_def Let_def)
  from sweep_loop_param_free_prefix [OF pf ne, of B ?tp "op # rev before"]
  obtain s' where "sweep_loop B ?tp (rev later @ op # rev before) ?init =
      sweep_loop B ?tp (op # rev before) s'" "st_jac s' = st_jac ?init" by blast
  then have "sweep_loop B ?tp (visited_ops ?ops) ?init =
        Inl (LightningException
               ''The operation is not supported using the adjoint differentiation method'',
             jac)"
    using v ab j by simp
  then show "adjointJacobian B ref_data jac obs ?ops trainableParams apply_operations dev_tag =
        Inl (LightningException
               ''The operation is not supported using the adjoint differentiation method'',
             jac)"
    using a by (simp add: adjointJacobian_def)
qed

theorem multi_param_op_aborts_when_reached_witness:
  "adjointJacobian qubit_backend [3 / 5, 4 * \<i> / 5] [5] [NamedObs ''PauliZ'' [0] []]
     [gate_op ''Rot'' [1, 2, 3] [0], gate_op ''PauliX'' [] [0]] [0] False dev0 =
     Inl (LightningException
            ''The operation is not supported using the adjoint differentiation method'', [5])"
  using multi_param_op_aborts_when_reached [of "gate_op ''Rot'' [1, 2, 3] [0]" qubit_backend 1
      "[]" run_init "[0]" "[gate_op ''PauliX'' [] [0]]" "[]" "[3 / 5, 4 * \<i> / 5]" "[5]"
      "[NamedObs ''PauliZ'' [0] []]" False dev0]
  by (simp add: gate_op_def)

section \<open>The shard worker and the device pool\<close>

lemma acquireDevice_ids:
  "acquireDevice dp = Some (dev, dp1) \<Longrightarrow> map fst dp1 = map fst dp \<and> (dev, False) \<in> set dp1"
proof (induction dp arbitrary: dp1)
  case Nil
  then show ?case by simp
next
  case (Cons e dp)
  obtain d a where e: "e = (d, a)" by (cases e)
  show ?case
  proof (cases a)
    case True
    then show ?thesis using Cons.prems e by auto
  next
    case False
    then obtain dp' where "acquireDevice dp = Some (dev, dp')" "dp1 = (d, a) # dp'"
      using Cons.prems e by (auto split: option.splits)
    then show ?thesis using Cons.IH [of dp'] e by auto
  qed
qed

lemma releaseDevice_available:
  "(dev, a) \<in> set dp \<Longrightarrow> isAvailable dev (releaseDevice dev dp)"
  by (force simp: isAvailable_def releaseDevice_def)

lemma acquire_release_restores:
  "distinct (map fst dp) \<Longrightarrow> acquireDevice dp = Some (dev, dp1) \<Longrightarrow> releaseDevice dev dp1 = dp"
proof (induction dp arbitrary: dp1)
  case Nil
  then show ?case by simp
next
  case (Cons e dp)
  obtain d a where e: "e = (d, a)" by (cases e)
  show ?case
  proof (cases a)
    case True
    then have d: "dev = d" "dp1 = (d, False) # dp" using Cons.prems e by auto
    have "d \<notin> fst ` set dp" using Cons.prems(1) e by simp
    then have "map (\<lambda>(d', available). if d' = d then (d', True) else (d', available)) dp = dp"
      by (intro map_idI) (auto simp: rev_image_eqI)
    then show ?thesis using d e True by (simp add: releaseDevice_def)
  next
    case False
    then obtain dp' where r: "acquireDevice dp = Some (dev, dp')" "dp1 = (d, a) # dp'"
      using Cons.prems e by (auto split: option.splits)
    have "dev \<in> fst ` set dp'" using acquireDevice_ids [OF r(1)] by force
    then have "dev \<in> fst ` set dp" using acquireDevice_ids [OF r(1)] by (metis list.set_map)
    then have "dev \<noteq> d" using Cons.prems(1) e by auto
    moreover have "releaseDevice dev dp' = dp" using Cons.IH [OF _ r(1)] Cons.prems(1) by simp
    ultimately show ?thesis using r(2) e by (simp add: releaseDevice_def)
  qed
qed

text \<open>
  Claim C6, as stated, fails. The thread body calls \<open>releaseDevice\<close> after the sweep and
  after it has delivered its block; nothing catches an exception of the sweep. In the
  run below the sweep of the only worker raises the exception for the unsupported
  operation, and the worker ends with device 0 still flagged as taken.
\<close>

theorem worker_keeps_device_when_sweep_raises:
  "adj_lambda qubit_backend (DevicePool_new 1) [1, 0] [NamedObs ''PauliZ'' [0] []]
     [gate_op ''Rot'' [1, 2, 3] [0]] [0] False 0 0 =
     Worker_raised
       (LightningException
          ''The operation is not supported using the adjoint differentiation method'')
       [(0, False)]
   \<and> \<not> isAvailable 0 [(0, False)]"
  by (simp add: adj_lambda_def DevicePool_new_def obs_range_def sweep_defs qubit_defs
      isAvailable_def)

text \<open>
  Claim C6, amended. A shard worker whose sweep returns normally has acquired a device
  and releases that device before it ends: the pool it leaves is the pool after the
  acquisition with this device released, the device is available in it, and when the
  device identifiers of the pool are distinct the pool is as it was before the worker
  started.
\<close>

theorem worker_releases_after_normal_sweep:
  "adj_lambda B dp ref_data obs ops trainableParams apply_operations first last_ob =
     Worker_done jac_rows dp' \<Longrightarrow>
   \<exists>dev dp1. acquireDevice dp = Some (dev, dp1) \<and> dp' = releaseDevice dev dp1
     \<and> isAvailable dev dp' \<and> (distinct (map fst dp) \<longrightarrow> dp' = dp)"
proof -
  assume w: "adj_lambda B dp ref_data obs ops trainableParams apply_operations first last_ob =
     Worker_done jac_rows dp'"
  then obtain dev dp1 where acq: "acquireDevice dp = Some (dev, dp1)"
    by (cases "acquireDevice dp") (auto simp: adj_lambda_def)
  have rel: "dp' = releaseDevice dev dp1"
    using w acq by (auto simp: adj_lambda_def Let_def split: sum.splits prod.splits)
  have "isAvailable dev dp'"
    using acquireDevice_ids [OF acq] rel releaseDevice_available by blast
  moreover have "distinct (map fst dp) \<longrightarrow> dp' = dp"
    using acquire_release_restores [OF _ acq] rel by simp
  ultimately show ?thesis using acq rel by blast
qed

theorem worker_releases_after_normal_sweep_witness:
  "adj_lambda qubit_backend (DevicePool_new 1) [3 / 5, 4 * \<i> / 5] [NamedObs ''PauliZ'' [0] []]
     [gate_op ''RX'' [0] [0]] [0] False 0 0 = Worker_done [24 / 25] [(0, True)]
   \<and> (\<exists>dev dp1. acquireDevice (DevicePool_new 1) = Some (dev, dp1)
         \<and> [(0, True)] = releaseDevice dev dp1 \<and> isAvailable dev [(0, True)])"
proof -
  have e: "adj_lambda qubit_backend (DevicePool_new 1) [3 / 5, 4 * \<i> / 5] [NamedObs ''PauliZ'' [0] []]
     [gate_op ''RX'' [0] [0]] [0] False 0 0 = Worker_done [24 / 25] [(0, True)]"
    by (simp add: adj_lambda_def DevicePool_new_def obs_range_def releaseDevice_def
        sweep_defs qubit_defs)
  from worker_releases_after_normal_sweep [OF e] e show ?thesis by blast
qed

section \<open>The multi-device batcher against the single-device sweep\<close>

text \<open>
  Claim C1 says that \<open>batchAdjointJacobian\<close> and \<open>adjointJacobian\<close> produce the same
  Jacobian. The code does not: the merge loop writes element \<open>j\<close> of the block of the
  chunk that starts at observable \<open>first\<close> to \<open>jac.at(first + j)\<close>, while the block is
  row-major with \<open>trainableParams.size()\<close> entries per observable and belongs at
  \<open>first * trainableParams.size() + j\<close>. With two devices, two observables and two
  trainable parameters the second block overwrites an entry of the first and the last
  entry of the buffer is never written. The run below is one qubit in the state
  \<open>(3/5, 4i/5)\<close>, the tape \<open>RX(0), RX(0)\<close>, the observables \<open>PauliZ\<close> and \<open>PauliY\<close>.
\<close>

theorem batch_merge_misplaces_blocks:
  "adjointJacobian qubit_backend [3 / 5, 4 * \<i> / 5] [0, 0, 0, 0]
     [NamedObs ''PauliZ'' [0] [], NamedObs ''PauliY'' [0] []]
     [gate_op ''RX'' [0] [0], gate_op ''RX'' [0] [0]] [0, 1] False dev0 =
     Inr [24 / 25, 24 / 25, 7 / 25, 7 / 25]
   \<and> batchAdjointJacobian qubit_backend 2 [3 / 5, 4 * \<i> / 5] [0, 0, 0, 0]
     [NamedObs ''PauliZ'' [0] [], NamedObs ''PauliY'' [0] []]
     [gate_op ''RX'' [0] [0], gate_op ''RX'' [0] [0]] [0, 1] False =
     Inr [24 / 25, 7 / 25, 7 / 25, 0]"
  by (simp add: sweep_defs qubit_defs batch_defs upt_2 replicate_2)

end
